theory Spec2Isabelle
  imports Main
begin

section \<open>Python values and failures\<close>

text \<open>
  The notebook \<^verbatim>\<open>Names/download.ipynb\<close> is a sequence of cells: an import cell, three
  cells of the baby-names pipeline (download and unzip, read and combine, clean up) and
  two cells of the life-table pipeline (the four function definitions, then the call that
  writes \<^verbatim>\<open>lifetables.csv\<close>).

  Python strings are modelled as \<open>string\<close>, one \<open>char\<close> per code point, which covers the
  code points U+0000 to U+00FF; the non-breaking space U+00A0 that the life-table parser
  tests for is one of them. Every exception the cells can raise is a value of \<open>error\<close>,
  and a computation that can raise returns \<open>error + 'a\<close> with \<open>Inl\<close> for the exception.
\<close>

datatype error =
    NameError string
  | ValueError
  | IndexError
  | FileNotFoundError
  | IsADirectoryError
  | NotADirectoryError
  | InvalidIndexError
  | ExternalError string

text \<open>\<^verbatim>\<open>s.endswith(suffix)\<close> and the slice \<^verbatim>\<open>s[i:j]\<close> for \<open>0 \<le> i \<le> j\<close> (a slice
  never raises: it is cut at the end of the string).\<close>

definition endswith :: "string \<Rightarrow> string \<Rightarrow> bool" where
  "endswith s suffix =
     (length suffix \<le> length s \<and> drop (length s - length suffix) s = suffix)"

definition py_slice :: "nat \<Rightarrow> nat \<Rightarrow> 'a list \<Rightarrow> 'a list" where
  "py_slice i j xs = take (j - i) (drop i xs)"

text \<open>
  \<^verbatim>\<open>str.isspace\<close> on the code points below 256: tab to carriage return, the four
  separators U+001C to U+001F, the space, U+0085 and U+00A0. This is the set that
  \<^verbatim>\<open>\s\<close> matches in a \<^verbatim>\<open>re\<close> pattern on \<^verbatim>\<open>str\<close>. The builtin \<^verbatim>\<open>int\<close> strips a smaller
  set: the ASCII whitespace (tab to carriage return, and the space) and the spaces beyond
  ASCII, but not the four separators.
\<close>

definition isspace :: "char \<Rightarrow> bool" where
  "isspace c =
     (let n = (of_char c :: nat)
      in (9 \<le> n \<and> n \<le> 13) \<or> (28 \<le> n \<and> n \<le> 32) \<or> n = 133 \<or> n = 160)"

definition int_whitespace :: "char \<Rightarrow> bool" where
  "int_whitespace c =
     (let n = (of_char c :: nat)
      in (9 \<le> n \<and> n \<le> 13) \<or> n = 32 \<or> n = 133 \<or> n = 160)"

definition isdigit :: "char \<Rightarrow> bool" where
  "isdigit c = (48 \<le> (of_char c :: nat) \<and> (of_char c :: nat) \<le> 57)"

definition digit_value :: "char \<Rightarrow> int" where
  "digit_value c = int (of_char c) - 48"

definition py_strip :: "string \<Rightarrow> string" where
  "py_strip s = rev (dropWhile int_whitespace (rev (dropWhile int_whitespace s)))"

text \<open>
  The builtin \<^verbatim>\<open>int(s)\<close> on a string, base ten: surrounding whitespace is stripped, one
  sign is allowed, then come decimal digits, where single underscores may stand between
  two digits. Anything else raises \<^verbatim>\<open>ValueError\<close>. \<open>int_digits acc seen s\<close> reads the
  digits; \<open>seen\<close> says that the character before was a digit. (The notebook applies
  \<^verbatim>\<open>int\<close> to at most four characters, far below the length at which newer versions of
  Python refuse a numeral.)
\<close>

fun int_digits :: "int \<Rightarrow> bool \<Rightarrow> string \<Rightarrow> error + int" where
  "int_digits acc seen [] = (if seen then Inr acc else Inl ValueError)"
| "int_digits acc seen (c # cs) =
     (if isdigit c then int_digits (10 * acc + digit_value c) True cs
      else if c = CHR ''_'' \<and> seen \<and> cs \<noteq> [] \<and> isdigit (hd cs) then int_digits acc False cs
      else Inl ValueError)"

definition py_int :: "string \<Rightarrow> error + int" where
  "py_int s =
     (case py_strip s of
        [] \<Rightarrow> Inl ValueError
      | c # cs \<Rightarrow>
          if c = CHR ''-'' then
            (case int_digits 0 False cs of Inl e \<Rightarrow> Inl e | Inr n \<Rightarrow> Inr (- n))
          else if c = CHR ''+'' then int_digits 0 False cs
          else int_digits 0 False (c # cs))"

text \<open>\<^verbatim>\<open>range(start, stop, step)\<close> as a list, for a positive step.\<close>

function py_range :: "int \<Rightarrow> int \<Rightarrow> int \<Rightarrow> int list" where
  "py_range start stop step =
     (if 0 < step \<and> start < stop then start # py_range (start + step) stop step else [])"
  by pat_completeness auto
termination
  by (relation "measure (\<lambda>(start, stop, step). nat (stop - start))") auto

declare py_range.simps [simp del]

text \<open>A list comprehension whose body can raise: the elements are evaluated from left
  to right and the first exception ends the comprehension.\<close>

fun traverse :: "('a \<Rightarrow> error + 'b) \<Rightarrow> 'a list \<Rightarrow> error + 'b list" where
  "traverse f [] = Inr []"
| "traverse f (x # xs) =
     (case f x of
        Inl e \<Rightarrow> Inl e
      | Inr y \<Rightarrow> (case traverse f xs of Inl e \<Rightarrow> Inl e | Inr ys \<Rightarrow> Inr (y # ys)))"

section \<open>Data frames\<close>

text \<open>
  A cell of a \<^verbatim>\<open>pandas.DataFrame\<close> holds \<^verbatim>\<open>None\<close>, a float, a string or an integer. The
  value of a float is never inspected by the notebook, so floats are a type parameter
  \<open>'x\<close>. A frame is its list of column labels (labels may repeat) and its rows; the row
  index is left out, since both outputs are written with \<^verbatim>\<open>index=False\<close> and no operation
  of the notebook aligns rows by index.
\<close>

datatype 'x cell = PyNone | PyFloat 'x | PyStr string | PyInt int

record 'x frame =
  columns :: "string list"
  rows :: "'x cell list list"

text \<open>\<^verbatim>\<open>df[c] = v\<close> and \<^verbatim>\<open>df.assign(c=v)\<close> for a scalar \<open>v\<close>: every column labelled \<open>c\<close>
  is overwritten; when there is none, a new last column is added.\<close>

definition assign :: "string \<Rightarrow> 'x cell \<Rightarrow> 'x frame \<Rightarrow> 'x frame" where
  "assign c v df =
     (if c \<in> set (columns df) then
        df\<lparr>rows := map (\<lambda>r. map (\<lambda>(n, x). if n = c then v else x) (zip (columns df) r)) (rows df)\<rparr>
      else
        \<lparr>columns = columns df @ [c], rows = map (\<lambda>r. r @ [v]) (rows df)\<rparr>)"

text \<open>\<^verbatim>\<open>df.rename(columns={old: new})\<close>.\<close>

definition rename :: "string \<Rightarrow> string \<Rightarrow> 'x frame \<Rightarrow> 'x frame" where
  "rename old new df = df\<lparr>columns := map (\<lambda>c. if c = old then new else c) (columns df)\<rparr>"

text \<open>
  \<^verbatim>\<open>pd.concat(frames)\<close> along the rows. An empty list raises \<^verbatim>\<open>ValueError\<close>. Frames
  with the same column labels are stacked. Otherwise the columns are aligned by label:
  the result has the union of the labels in order of first appearance and a frame has
  \<^verbatim>\<open>NaN\<close> where it lacks a column; pandas refuses to align a frame whose labels repeat.
  The cells are stacked as they are: the type of a column is not modelled, so the model
  does not show that pandas turns the integers of a column into floats when the stacked
  column also holds a float or \<^verbatim>\<open>NaN\<close>.
\<close>

fun union_labels :: "string list \<Rightarrow> string list \<Rightarrow> string list" where
  "union_labels acc [] = acc"
| "union_labels acc (c # cs) = union_labels (if c \<in> set acc then acc else acc @ [c]) cs"

definition reindex :: "string list \<Rightarrow> string list \<Rightarrow> 'x cell list \<Rightarrow> 'x cell list" where
  "reindex cols target r =
     map (\<lambda>c. case map_of (zip cols r) c of None \<Rightarrow> PyNone | Some v \<Rightarrow> v) target"

definition pd_concat :: "'x frame list \<Rightarrow> error + 'x frame" where
  "pd_concat dfs =
     (case dfs of
        [] \<Rightarrow> Inl ValueError
      | d # ds \<Rightarrow>
          if list_all (\<lambda>f. columns f = columns d) ds then
            Inr \<lparr>columns = columns d, rows = concat (map rows dfs)\<rparr>
          else if list_all (\<lambda>f. distinct (columns f)) dfs then
            (let target = foldl (\<lambda>acc f. union_labels acc (columns f)) [] dfs
             in Inr \<lparr>columns = target,
                     rows = concat (map (\<lambda>f. map (reindex (columns f) target) (rows f)) dfs)\<rparr>)
          else Inl InvalidIndexError)"

section \<open>The file system\<close>

text \<open>
  The working directory maps a path to a node: a plain file, a directory with its entries
  in the order \<^verbatim>\<open>Path.iterdir\<close> yields them, or a CSV file as \<^verbatim>\<open>DataFrame.to_csv\<close> wrote
  it (the frame, whether an index column was written, the compression). The cell that
  downloads and unzips the archive is not modelled: the cells below start from a file
  system in which \<^verbatim>\<open>names.zip\<close> and the directory \<^verbatim>\<open>data-us\<close> are in place or not.
\<close>

datatype compression = NoCompression | Gzip

record 'x csv_file =
  csv_frame :: "'x frame"
  csv_index :: bool
  csv_compression :: compression

datatype ('f, 'x) node = File 'f | Dir "(string \<times> 'f) list" | Csv "'x csv_file"

type_synonym ('f, 'x) fs = "string \<Rightarrow> ('f, 'x) node option"

fun join :: "string \<Rightarrow> string list \<Rightarrow> string" where
  "join sep [] = []"
| "join sep [s] = s"
| "join sep (s # t # ts) = s @ sep @ join sep (t # ts)"

text \<open>The first line of a written CSV file: the column labels, after an empty label for
  the index column when one is written.\<close>

definition header_line :: "'x csv_file \<Rightarrow> string" where
  "header_line w =
     join '','' ((if csv_index w then [''''] else []) @ columns (csv_frame w))"

definition iterdir :: "('f, 'x) fs \<Rightarrow> string \<Rightarrow> error + (string \<times> 'f) list" where
  "iterdir fs p =
     (case fs p of
        None \<Rightarrow> Inl FileNotFoundError
      | Some (Dir es) \<Rightarrow> Inr es
      | Some _ \<Rightarrow> Inl NotADirectoryError)"

definition to_csv ::
  "string \<Rightarrow> 'x frame \<Rightarrow> bool \<Rightarrow> compression \<Rightarrow> ('f, 'x) fs \<Rightarrow> (error + unit) \<times> ('f, 'x) fs" where
  "to_csv p df index compr fs =
     (case fs p of
        Some (Dir es) \<Rightarrow> (Inl IsADirectoryError, fs)
      | _ \<Rightarrow> (Inr (), fs(p \<mapsto> Csv \<lparr>csv_frame = df, csv_index = index, csv_compression = compr\<rparr>)))"

definition os_remove :: "string \<Rightarrow> ('f, 'x) fs \<Rightarrow> (error + unit) \<times> ('f, 'x) fs" where
  "os_remove p fs =
     (case fs p of
        None \<Rightarrow> (Inl FileNotFoundError, fs)
      | Some (Dir es) \<Rightarrow> (Inl IsADirectoryError, fs)
      | Some _ \<Rightarrow> (Inr (), fs(p := None)))"

definition shutil_rmtree :: "string \<Rightarrow> ('f, 'x) fs \<Rightarrow> (error + unit) \<times> ('f, 'x) fs" where
  "shutil_rmtree p fs =
     (case fs p of
        None \<Rightarrow> (Inl FileNotFoundError, fs)
      | Some (Dir es) \<Rightarrow> (Inr (), fs(p := None))
      | Some _ \<Rightarrow> (Inl NotADirectoryError, fs))"

section \<open>The baby-names pipeline\<close>

text \<open>
  \<^verbatim>\<open>pd.read_csv(file, names=['name', 'sex', 'births'])\<close> is the parameter \<open>read_csv\<close>: on a
  file it raises or returns the rows of a frame with these three columns. The loop over
  the directory appends one frame per entry whose name ends in \<^verbatim>\<open>txt\<close>: the file is read
  first, then the year is parsed from the name and set as the fourth column.
\<close>

definition names_columns :: "string list" where
  "names_columns = [''name'', ''sex'', ''births'']"

fun babynames_loop ::
  "('f \<Rightarrow> error + ('x cell \<times> 'x cell \<times> 'x cell) list) \<Rightarrow> (string \<times> 'f) list \<Rightarrow>
   'x frame list \<Rightarrow> error + 'x frame list" where
  "babynames_loop read_csv [] babynames = Inr babynames"
| "babynames_loop read_csv ((name, file) # es) babynames =
     (if endswith name ''txt'' then
        (case read_csv file of
           Inl e \<Rightarrow> Inl e
         | Inr body \<Rightarrow>
             (case py_int (py_slice 3 7 name) of
                Inl e \<Rightarrow> Inl e
              | Inr year \<Rightarrow>
                  babynames_loop read_csv es
                    (babynames @
                     [assign ''year'' (PyInt year)
                        \<lparr>columns = names_columns, rows = map (\<lambda>(a, b, c). [a, b, c]) body\<rparr>])))
      else babynames_loop read_csv es babynames)"

text \<open>The cell that reads, combines and writes \<^verbatim>\<open>names.csv.gz\<close>. An exception leaves the
  file system as it was: the only write is the last statement.\<close>

definition cell_combine ::
  "('f \<Rightarrow> error + ('x cell \<times> 'x cell \<times> 'x cell) list) \<Rightarrow> ('f, 'x) fs \<Rightarrow>
   (error + unit) \<times> ('f, 'x) fs" where
  "cell_combine read_csv fs =
     (case iterdir fs ''data-us'' of
        Inl e \<Rightarrow> (Inl e, fs)
      | Inr es \<Rightarrow>
          (case babynames_loop read_csv es [] of
             Inl e \<Rightarrow> (Inl e, fs)
           | Inr babynames \<Rightarrow>
               (case pd_concat babynames of
                  Inl e \<Rightarrow> (Inl e, fs)
                | Inr df \<Rightarrow> to_csv ''names.csv.gz'' df False Gzip fs)))"

text \<open>The clean-up cell: \<^verbatim>\<open>os.remove('names.zip')\<close>, then \<^verbatim>\<open>shutil.rmtree('data-us')\<close>.\<close>

definition cell_cleanup :: "('f, 'x) fs \<Rightarrow> (error + unit) \<times> ('f, 'x) fs" where
  "cell_cleanup fs =
     (case os_remove ''names.zip'' fs of
        (Inl e, fs') \<Rightarrow> (Inl e, fs')
      | (Inr u, fs') \<Rightarrow> shutil_rmtree ''data-us'' fs')"

section \<open>The life-table pipeline\<close>

text \<open>
  The functions of the life-table cell use names the cell does not define: \<^verbatim>\<open>pd\<close>,
  \<^verbatim>\<open>re\<close>, \<^verbatim>\<open>requests\<close>, \<^verbatim>\<open>BeautifulSoup\<close> and \<^verbatim>\<open>Extractor\<close>. Python looks a global
  name up when the expression is evaluated and raises \<^verbatim>\<open>NameError\<close> when it is not bound.
  The environment of a call therefore lists the bound global names, and holds what the
  libraries outside the notebook compute when their names are bound:
  \<^item> \<open>requests_get url\<close>: the body \<^verbatim>\<open>requests.get(url).content\<close>, or a network failure;
  \<^item> \<open>find_all_tables c\<close>: \<^verbatim>\<open>BeautifulSoup(c, 'html.parser').find_all("table")\<close>;
  \<^item> \<open>extractor t\<close>: the grid of text cells \<^verbatim>\<open>Extractor(t).parse().return_list()\<close>;
  \<^item> \<open>py_float s\<close>: the builtin \<^verbatim>\<open>float(s)\<close>, which raises on a malformed numeral, and
    \<open>isnan\<close>, which tells whether a float is \<^verbatim>\<open>NaN\<close>.
\<close>

record ('c, 't, 'x) pyenv =
  globals :: "string list"
  requests_get :: "string \<Rightarrow> error + 'c"
  find_all_tables :: "'c \<Rightarrow> error + 't list"
  extractor :: "'t \<Rightarrow> error + string list list"
  py_float :: "string \<Rightarrow> error + 'x"
  isnan :: "'x \<Rightarrow> bool"

definition load_global :: "('c, 't, 'x) pyenv \<Rightarrow> string \<Rightarrow> error + unit" where
  "load_global env name = (if name \<in> set (globals env) then Inr () else Inl (NameError name))"

text \<open>
  The global names bound once every cell of the notebook has run: the names of the import
  cell (\<^verbatim>\<open>import numpy as np\<close>, \<^verbatim>\<open>import pandas as pd\<close>,
  \<^verbatim>\<open>from wquantiles import quantile\<close>, \<^verbatim>\<open>import matplotlib.pyplot as plt\<close>,
  \<^verbatim>\<open>import plotly.express as px\<close>, \<^verbatim>\<open>import os\<close>, \<^verbatim>\<open>from pathlib import Path\<close>,
  \<^verbatim>\<open>import shutil\<close>, \<^verbatim>\<open>import wget\<close>, \<^verbatim>\<open>from zipfile import ZipFile\<close>), the variables
  the baby-names cells assign, and the four functions and the variable of the life-table
  cells.
\<close>

definition notebook_globals :: "string list" where
  "notebook_globals =
     [''np'', ''pd'', ''quantile'', ''plt'', ''px'', ''os'', ''Path'', ''shutil'', ''wget'',
      ''ZipFile'', ''zip_names'', ''babynames'', ''file'', ''df'',
      ''parse_lifetable'', ''scrape_lifetable'', ''get_lifetable'', ''get_lifetables'',
      ''lifetables'']"

text \<open>\<^verbatim>\<open>xs[i]\<close> for \<open>0 \<le> i\<close>.\<close>

definition py_index :: "'a list \<Rightarrow> nat \<Rightarrow> error + 'a" where
  "py_index xs i = (if i < length xs then Inr (xs ! i) else Inl IndexError)"

text \<open>\<^verbatim>\<open>str(n)\<close> for an integer, used by the f-string of the URL.\<close>

function str_nat :: "nat \<Rightarrow> string" where
  "str_nat n =
     (if n < 10 then [char_of (48 + n)] else str_nat (n div 10) @ [char_of (48 + n mod 10)])"
  by pat_completeness auto
termination
  by (relation "measure (\<lambda>n. n)") auto

declare str_nat.simps [simp del]

definition py_str :: "int \<Rightarrow> string" where
  "py_str i = (if i < 0 then CHR ''-'' # str_nat (nat (- i)) else str_nat (nat i))"

definition lifetable_url :: "int \<Rightarrow> string" where
  "lifetable_url year =
     ''https://www.ssa.gov/oact/NOTES/as120/LifeTables_Tbl_7_'' @ py_str year @ ''.html''"

text \<open>\<^verbatim>\<open>re.sub('\n|,', '', x)\<close> deletes every newline and comma;
  \<^verbatim>\<open>re.sub('\n|\s', '', x)\<close> deletes every whitespace character.\<close>

definition re_sub_newline_comma :: "string \<Rightarrow> string" where
  "re_sub_newline_comma x = filter (\<lambda>c. c \<noteq> CHR 0x0A \<and> c \<noteq> CHR '','') x"

definition re_sub_whitespace :: "string \<Rightarrow> string" where
  "re_sub_whitespace x = filter (\<lambda>c. c \<noteq> CHR 0x0A \<and> \<not> isspace c) x"

text \<open>The placeholder \<^verbatim>\<open>u"\xa0"\<close>: the string of one non-breaking space.\<close>

definition nbsp :: string where
  "nbsp = [CHR 0xA0]"

text \<open>
  One element of the inner comprehension,
  \<^verbatim>\<open>float(re.sub('\n|,', '', x)) if x != u"\xa0" else None\<close>: the condition is evaluated
  first, and \<^verbatim>\<open>re\<close> is looked up only for a cell that is not the placeholder.
\<close>

definition parse_cell :: "('c, 't, 'x) pyenv \<Rightarrow> string \<Rightarrow> error + 'x cell" where
  "parse_cell env x =
     (if x \<noteq> nbsp then
        (case load_global env ''re'' of
           Inl e \<Rightarrow> Inl e
         | Inr u \<Rightarrow>
             (case py_float env (re_sub_newline_comma x) of
                Inl e \<Rightarrow> Inl e
              | Inr v \<Rightarrow> Inr (PyFloat v)))
      else Inr PyNone)"

definition parse_header :: "('c, 't, 'x) pyenv \<Rightarrow> string \<Rightarrow> error + string" where
  "parse_header env x =
     (case load_global env ''re'' of Inl e \<Rightarrow> Inl e | Inr u \<Rightarrow> Inr (re_sub_whitespace x))"

text \<open>
  \<^verbatim>\<open>pd.DataFrame(data, columns=cols)\<close> on a list of lists. No rows give an empty frame
  with the given columns. Otherwise the width is that of the longest row, shorter rows are
  filled with \<^verbatim>\<open>None\<close>, and a number of labels other than the width raises
  \<^verbatim>\<open>ValueError\<close>.
\<close>

definition pd_DataFrame :: "'x cell list list \<Rightarrow> string list \<Rightarrow> error + 'x frame" where
  "pd_DataFrame data cols =
     (if data = [] then Inr \<lparr>columns = cols, rows = []\<rparr>
      else
        (let width = foldr max (map length data) 0
         in if length cols \<noteq> width then Inl ValueError
            else Inr \<lparr>columns = cols,
                      rows = map (\<lambda>r. r @ replicate (width - length r) PyNone) data\<rparr>))"

text \<open>The first statement of \<^verbatim>\<open>parse_lifetable\<close>: \<^verbatim>\<open>pd\<close> is looked up, then the data
  argument is evaluated (rows \<^verbatim>\<open>lifetable[4:]\<close>), then the labels (row \<^verbatim>\<open>lifetable[1]\<close>),
  then the frame is built.\<close>

definition build_df :: "('c, 't, 'x) pyenv \<Rightarrow> string list list \<Rightarrow> error + 'x frame" where
  "build_df env lifetable =
     (case load_global env ''pd'' of
        Inl e \<Rightarrow> Inl e
      | Inr u \<Rightarrow>
          (case traverse (traverse (parse_cell env)) (drop 4 lifetable) of
             Inl e \<Rightarrow> Inl e
           | Inr data \<Rightarrow>
               (case py_index lifetable 1 of
                  Inl e \<Rightarrow> Inl e
                | Inr header \<Rightarrow>
                    (case traverse (parse_header env) header of
                       Inl e \<Rightarrow> Inl e
                     | Inr cols \<Rightarrow> pd_DataFrame data cols))))"

text \<open>\<^verbatim>\<open>df.iloc[:, :n]\<close> and \<^verbatim>\<open>df.iloc[:, n:]\<close>.\<close>

definition iloc_until :: "nat \<Rightarrow> 'x frame \<Rightarrow> 'x frame" where
  "iloc_until n df = \<lparr>columns = take n (columns df), rows = map (take n) (rows df)\<rparr>"

definition iloc_from :: "nat \<Rightarrow> 'x frame \<Rightarrow> 'x frame" where
  "iloc_from n df = \<lparr>columns = drop n (columns df), rows = map (drop n) (rows df)\<rparr>"

definition df_male :: "'x frame \<Rightarrow> 'x frame" where
  "df_male df = assign ''sex'' (PyStr ''M'') (iloc_until 7 df)"

definition df_female :: "'x frame \<Rightarrow> 'x frame" where
  "df_female df = assign ''sex'' (PyStr ''F'') (iloc_from 8 df)"

text \<open>\<^verbatim>\<open>df.dropna()\<close> drops every row that holds \<^verbatim>\<open>None\<close> or \<^verbatim>\<open>NaN\<close>.\<close>

definition isna :: "('c, 't, 'x) pyenv \<Rightarrow> 'x cell \<Rightarrow> bool" where
  "isna env c = (case c of PyNone \<Rightarrow> True | PyFloat v \<Rightarrow> isnan env v | PyStr s \<Rightarrow> False | PyInt i \<Rightarrow> False)"

definition dropna :: "('c, 't, 'x) pyenv \<Rightarrow> 'x frame \<Rightarrow> 'x frame" where
  "dropna env df = df\<lparr>rows := filter (\<lambda>r. \<not> list_ex (isna env) r) (rows df)\<rparr>"

text \<open>The functions of the cell. Once \<open>build_df\<close> has returned, \<^verbatim>\<open>pd\<close> is bound, so
  the later look-ups of \<^verbatim>\<open>pd\<close> in \<^verbatim>\<open>parse_lifetable\<close> cannot fail and are left out.\<close>

definition parse_lifetable ::
  "('c, 't, 'x) pyenv \<Rightarrow> string list list \<Rightarrow> int \<Rightarrow> error + 'x frame" where
  "parse_lifetable env lifetable year =
     (case build_df env lifetable of
        Inl e \<Rightarrow> Inl e
      | Inr df \<Rightarrow>
          (case pd_concat [df_male df, df_female df] of
             Inl e \<Rightarrow> Inl e
           | Inr both \<Rightarrow>
               Inr (dropna env (assign ''year'' (PyInt year) (rename ''x'' ''age'' both)))))"

definition scrape_lifetable :: "('c, 't, 'x) pyenv \<Rightarrow> int \<Rightarrow> error + string list list" where
  "scrape_lifetable env year =
     (case load_global env ''requests'' of
        Inl e \<Rightarrow> Inl e
      | Inr u \<Rightarrow>
          (case requests_get env (lifetable_url year) of
             Inl e \<Rightarrow> Inl e
           | Inr content \<Rightarrow>
               (case load_global env ''BeautifulSoup'' of
                  Inl e \<Rightarrow> Inl e
                | Inr u \<Rightarrow>
                    (case find_all_tables env content of
                       Inl e \<Rightarrow> Inl e
                     | Inr tables \<Rightarrow>
                         (case py_index tables 1 of
                            Inl e \<Rightarrow> Inl e
                          | Inr table \<Rightarrow>
                              (case load_global env ''Extractor'' of
                                 Inl e \<Rightarrow> Inl e
                               | Inr u \<Rightarrow> extractor env table))))))"

definition get_lifetable :: "('c, 't, 'x) pyenv \<Rightarrow> int \<Rightarrow> error + 'x frame" where
  "get_lifetable env year =
     (case scrape_lifetable env year of
        Inl e \<Rightarrow> Inl e
      | Inr lifetable \<Rightarrow> parse_lifetable env lifetable year)"

definition get_lifetables :: "('c, 't, 'x) pyenv \<Rightarrow> error + 'x frame" where
  "get_lifetables env =
     (let years = py_range 1900 2100 10
      in case load_global env ''pd'' of
           Inl e \<Rightarrow> Inl e
         | Inr u \<Rightarrow>
             (case traverse (get_lifetable env) years of
                Inl e \<Rightarrow> Inl e
              | Inr dfs \<Rightarrow>
                  (case pd_concat dfs of
                     Inl e \<Rightarrow> Inl e
                   | Inr lifetables \<Rightarrow> Inr (rename '''' ''ex'' lifetables))))"

text \<open>The last cell: \<^verbatim>\<open>lifetables = get_lifetables()\<close>, then
  \<^verbatim>\<open>lifetables.to_csv('lifetables.csv', index=False)\<close>.\<close>

definition cell_lifetables ::
  "('c, 't, 'x) pyenv \<Rightarrow> ('f, 'x) fs \<Rightarrow> (error + unit) \<times> ('f, 'x) fs" where
  "cell_lifetables env fs =
     (case get_lifetables env of
        Inl e \<Rightarrow> (Inl e, fs)
      | Inr lifetables \<Rightarrow> to_csv ''lifetables.csv'' lifetables False NoCompression fs)"

section \<open>Notions of the specification and example inputs\<close>

text \<open>An entry of the scratch directory is a yearly file when its name ends in \<^verbatim>\<open>txt\<close>;
  this is the test of the loop, on an entry.\<close>

definition is_txt :: "string \<times> 'f \<Rightarrow> bool" where
  "is_txt e = endswith (fst e) ''txt''"

text \<open>The frame of one yearly file once its rows are tagged with the year.\<close>

definition tagged_frame :: "('x cell \<times> 'x cell \<times> 'x cell) list \<Rightarrow> int \<Rightarrow> 'x frame" where
  "tagged_frame body year =
     \<lparr>columns = [''name'', ''sex'', ''births'', ''year''],
      rows = map (\<lambda>(a, b, c). [a, b, c, PyInt year]) body\<rparr>"

text \<open>What \<^verbatim>\<open>names.csv.gz\<close> holds when the combined rows are \<open>rs\<close>.\<close>

definition names_csv :: "'x cell list list \<Rightarrow> 'x csv_file" where
  "names_csv rs =
     \<lparr>csv_frame = \<lparr>columns = [''name'', ''sex'', ''births'', ''year''], rows = rs\<rparr>,
      csv_index = False, csv_compression = Gzip\<rparr>"

text \<open>The number of rows of a yearly file, as the reader parses it.\<close>

definition file_row_count ::
  "('f \<Rightarrow> error + ('x cell \<times> 'x cell \<times> 'x cell) list) \<Rightarrow> string \<times> 'f \<Rightarrow> nat" where
  "file_row_count read_csv e = (case read_csv (snd e) of Inl err \<Rightarrow> 0 | Inr body \<Rightarrow> length body)"

text \<open>A numeric string in the sense of the specification's "4-digit year": a non-empty
  string of decimal digits.\<close>

definition numeric_string :: "string \<Rightarrow> bool" where
  "numeric_string s = (s \<noteq> [] \<and> list_all isdigit s)"

text \<open>A frame is rectangular when every row has one cell per column.\<close>

definition frame_ok :: "'x frame \<Rightarrow> bool" where
  "frame_ok df = list_all (\<lambda>r. length r = length (columns df)) (rows df)"

text \<open>The cells of a frame under the columns labelled \<open>c\<close>, row by row.\<close>

definition column_values :: "string \<Rightarrow> 'x frame \<Rightarrow> 'x cell list" where
  "column_values c df =
     concat (map (\<lambda>r. map snd (filter (\<lambda>p. fst p = c) (zip (columns df) r))) (rows df))"

text \<open>
  Example inputs. A yearly file is given by the rows the reader finds in it, so the
  example reader returns the file itself. The example directory holds two yearly files
  and the read-me of the archive; \<open>pair_dir\<close> holds the two yearly files only, the later
  year first.
\<close>

type_synonym demo_file = "(unit cell \<times> unit cell \<times> unit cell) list"

definition demo_read_csv :: "demo_file \<Rightarrow> error + demo_file" where
  "demo_read_csv file = Inr file"

definition mary_file :: demo_file where
  "mary_file = [(PyStr ''Mary'', PyStr ''F'', PyInt 100)]"

definition john_file :: demo_file where
  "john_file = [(PyStr ''John'', PyStr ''M'', PyInt 50)]"

definition demo_dir :: "(string \<times> demo_file) list" where
  "demo_dir =
     [(''yob2000.txt'', mary_file), (''NationalReadMe.pdf'', []), (''yob2001.txt'', john_file)]"

definition demo_fs :: "(demo_file, unit) fs" where
  "demo_fs = [''names.zip'' \<mapsto> File [], ''data-us'' \<mapsto> Dir demo_dir]"

definition pair_dir :: "(string \<times> demo_file) list" where
  "pair_dir = [(''yob2001.txt'', john_file), (''yob2000.txt'', mary_file)]"

definition pair_fs :: "(demo_file, unit) fs" where
  "pair_fs = [''names.zip'' \<mapsto> File [], ''data-us'' \<mapsto> Dir pair_dir]"

definition demo_rows :: "unit cell list list" where
  "demo_rows =
     [[PyStr ''Mary'', PyStr ''F'', PyInt 100, PyInt 2000],
      [PyStr ''John'', PyStr ''M'', PyInt 50, PyInt 2001]]"

text \<open>A directory whose only yearly file has a blank typed before the year, and one
  with a letter inside the year.\<close>

definition blank_fs :: "(demo_file, unit) fs" where
  "blank_fs = [''names.zip'' \<mapsto> File [], ''data-us'' \<mapsto> Dir [(''yob 1999.txt'', mary_file)]]"

definition letter_dir :: "(string \<times> demo_file) list" where
  "letter_dir = [(''yob2000.txt'', mary_file), (''yob20x1.txt'', john_file)]"

definition letter_fs :: "(demo_file, unit) fs" where
  "letter_fs = [''names.zip'' \<mapsto> File [], ''data-us'' \<mapsto> Dir letter_dir]"

text \<open>
  An example life table, as the extractor returns it: a title row, the header row, two
  spacer rows and two data rows of fifteen cells, the male columns, a separator and the
  female columns. The header cells carry blanks and a newline, the counts carry
  thousands separators, the separator cells and one male cell are the placeholder.
\<close>

definition demo_grid :: "string list list" where
  "demo_grid =
     [[''Period Life Table''],
      [''x\<newline>'', ''q x'', ''l x'', ''d x'', ''L x'', ''T x'', '' '', '''',
       ''x'', ''q x'', ''l x'', ''d x'', ''L x'', ''T x'', '' ''],
      [],
      [],
      [''0'', ''1'', ''100,000'', ''2'', ''3'', ''4'', ''76'', nbsp,
       ''0'', ''1'', ''100,000'', ''2'', ''3'', ''4'', ''81''],
      [''1'', nbsp, ''99,000'', ''2'', ''3'', ''4'', ''75'', nbsp,
       ''1'', ''1'', ''99,500\<newline>'', ''2'', ''3'', ''4'', ''80'']]"

text \<open>A grid whose second data row holds a cell that is no numeral.\<close>

definition bad_grid :: "string list list" where
  "bad_grid = [[''Period Life Table''], [''x''], [], [], [''0''], [''n/a'']]"

text \<open>
  A repaired environment, for comparison only: the namespace of the notebook with the four
  names it leaves unbound (\<^verbatim>\<open>re\<close>, \<^verbatim>\<open>requests\<close>, \<^verbatim>\<open>BeautifulSoup\<close>, \<^verbatim>\<open>Extractor\<close>) added,
  as if the import cell had imported them. It is not the notebook under study; the lemmas
  about it show what the functions of the life-table cell would compute. Every page holds
  two tables, the second of which is the example life table. The example float parser
  reads integer numerals only, which is all the example table holds, and never yields
  \<^verbatim>\<open>NaN\<close>.
\<close>

type_synonym example_env = "(string list list, string list list, int) pyenv"

definition demo_float :: "string \<Rightarrow> error + int" where
  "demo_float s = py_int s"

definition repaired_env :: example_env where
  "repaired_env =
     \<lparr>globals = notebook_globals @ [''re'', ''requests'', ''BeautifulSoup'', ''Extractor''],
      requests_get = (\<lambda>url. Inr demo_grid),
      find_all_tables = (\<lambda>content. Inr [[], content]),
      extractor = (\<lambda>table. Inr table),
      py_float = demo_float,
      isnan = (\<lambda>v. False)\<rparr>"

text \<open>The frame the first statement of \<^verbatim>\<open>parse_lifetable\<close> builds from the example,
  the frame the function returns for a year, and the combined frame of all years.\<close>

definition demo_df :: "int frame" where
  "demo_df =
     \<lparr>columns = [''x'', ''qx'', ''lx'', ''dx'', ''Lx'', ''Tx'', '''', '''',
                 ''x'', ''qx'', ''lx'', ''dx'', ''Lx'', ''Tx'', ''''],
      rows =
        [[PyFloat 0, PyFloat 1, PyFloat 100000, PyFloat 2, PyFloat 3, PyFloat 4, PyFloat 76, PyNone,
          PyFloat 0, PyFloat 1, PyFloat 100000, PyFloat 2, PyFloat 3, PyFloat 4, PyFloat 81],
         [PyFloat 1, PyNone, PyFloat 99000, PyFloat 2, PyFloat 3, PyFloat 4, PyFloat 75, PyNone,
          PyFloat 1, PyFloat 1, PyFloat 99500, PyFloat 2, PyFloat 3, PyFloat 4, PyFloat 80]]\<rparr>"

definition demo_lifetable :: "int \<Rightarrow> int frame" where
  "demo_lifetable year =
     \<lparr>columns = [''age'', ''qx'', ''lx'', ''dx'', ''Lx'', ''Tx'', '''', ''sex'', ''year''],
      rows =
        [[PyFloat 0, PyFloat 1, PyFloat 100000, PyFloat 2, PyFloat 3, PyFloat 4, PyFloat 76,
          PyStr ''M'', PyInt year],
         [PyFloat 0, PyFloat 1, PyFloat 100000, PyFloat 2, PyFloat 3, PyFloat 4, PyFloat 81,
          PyStr ''F'', PyInt year],
         [PyFloat 1, PyFloat 1, PyFloat 99500, PyFloat 2, PyFloat 3, PyFloat 4, PyFloat 80,
          PyStr ''F'', PyInt year]]\<rparr>"

definition demo_lifetables :: "int frame" where
  "demo_lifetables =
     \<lparr>columns = [''age'', ''qx'', ''lx'', ''dx'', ''Lx'', ''Tx'', ''ex'', ''sex'', ''year''],
      rows = concat (map (\<lambda>year. rows (demo_lifetable year)) (py_range 1900 2100 10))\<rparr>"

section \<open>Properties of the baby-names pipeline\<close>

lemma is_txt_pair: "is_txt (n, f) = endswith n ''txt''"
  by (simp add: is_txt_def)

lemma assign_year_names:
  "assign ''year'' v \<lparr>columns = names_columns, rows = map (\<lambda>(a, b, c). [a, b, c]) body\<rparr>
   = \<lparr>columns = [''name'', ''sex'', ''births'', ''year''], rows = map (\<lambda>(a, b, c). [a, b, c, v]) body\<rparr>"
  by (auto simp: assign_def names_columns_def)

lemma columns_tagged_frame:
  "columns (tagged_frame body y) = [''name'', ''sex'', ''births'', ''year'']"
  by (simp add: tagged_frame_def)

text \<open>The loop only appends to \<^verbatim>\<open>babynames\<close>: one tagged frame per yearly file, in the
  order of the directory.\<close>

lemma babynames_loop_acc:
  "babynames_loop rd es acc = Inr dfs \<Longrightarrow>
   \<exists>new. dfs = acc @ new \<and>
     list_all2 (\<lambda>e d. \<exists>body y. rd (snd e) = Inr body \<and> py_int (py_slice 3 7 (fst e)) = Inr y \<and>
                  d = tagged_frame body y) (filter is_txt es) new"
proof (induction es arbitrary: acc)
  case Nil
  then show ?case by simp
next
  case (Cons e es)
  obtain n f where e: "e = (n, f)" by (cases e)
  show ?case
  proof (cases "endswith n ''txt''")
    case False
    with Cons e show ?thesis by (simp add: is_txt_pair)
  next
    case True
    from Cons.prems e True obtain body y where
      rd: "rd f = Inr body" and y: "py_int (py_slice 3 7 n) = Inr y" and
      rest: "babynames_loop rd es (acc @ [tagged_frame body y]) = Inr dfs"
      by (auto simp: assign_year_names tagged_frame_def split: sum.splits)
    from Cons.IH[OF rest] obtain new where
      "dfs = (acc @ [tagged_frame body y]) @ new"
      "list_all2 (\<lambda>e d. \<exists>body y. rd (snd e) = Inr body \<and> py_int (py_slice 3 7 (fst e)) = Inr y \<and>
                  d = tagged_frame body y) (filter is_txt es) new"
      by blast
    with rd y e True show ?thesis
      by (intro exI[of _ "tagged_frame body y # new"]) (auto simp: is_txt_pair)
  qed
qed

lemma pd_concat_same_columns:
  "dfs \<noteq> [] \<Longrightarrow> list_all (\<lambda>f. columns f = cs) dfs \<Longrightarrow>
   pd_concat dfs = Inr \<lparr>columns = cs, rows = concat (map rows dfs)\<rparr>"
  by (cases dfs) (auto simp: pd_concat_def list_all_iff)

lemma int_digits_error: "int_digits acc seen s = Inl e \<Longrightarrow> e = ValueError"
  by (induction acc seen s rule: int_digits.induct) (auto split: if_splits)

lemma py_int_error: "py_int s = Inl e \<Longrightarrow> e = ValueError"
  by (auto simp: py_int_def split: list.splits if_splits sum.splits dest: int_digits_error)

lemma list_all2_right_all:
  "list_all2 P xs ys \<Longrightarrow> (\<And>x y. P x y \<Longrightarrow> Q y) \<Longrightarrow> list_all Q ys"
  by (induction rule: list_all2_induct) auto

text \<open>A run of the cell that succeeds wrote the stacked frames of the yearly files, and
  nothing else.\<close>

lemma cell_combine_success:
  assumes dir: "fs ''data-us'' = Some (Dir es)"
    and run: "cell_combine rd fs = (Inr (), fs')"
  shows "\<exists>dfs.
     list_all2 (\<lambda>e d. \<exists>body y. rd (snd e) = Inr body \<and> py_int (py_slice 3 7 (fst e)) = Inr y \<and>
                  d = tagged_frame body y) (filter is_txt es) dfs \<and>
     dfs \<noteq> [] \<and>
     fs' = fs(''names.csv.gz'' \<mapsto> Csv (names_csv (concat (map rows dfs))))"
proof -
  from dir have it: "iterdir fs ''data-us'' = Inr es"
    by (simp add: iterdir_def)
  from run it obtain dfs where loop: "babynames_loop rd es [] = Inr dfs"
    by (auto simp: cell_combine_def split: sum.splits)
  from babynames_loop_acc[OF loop] have rel:
    "list_all2 (\<lambda>e d. \<exists>body y. rd (snd e) = Inr body \<and> py_int (py_slice 3 7 (fst e)) = Inr y \<and>
                  d = tagged_frame body y) (filter is_txt es) dfs"
    by simp
  from run it loop obtain df where cc: "pd_concat dfs = Inr df"
    and wr: "to_csv ''names.csv.gz'' df False Gzip fs = (Inr (), fs')"
    by (auto simp: cell_combine_def split: sum.splits)
  from cc have ne: "dfs \<noteq> []"
    by (auto simp: pd_concat_def)
  from rel have "list_all (\<lambda>d. columns d = [''name'', ''sex'', ''births'', ''year'']) dfs"
    by (rule list_all2_right_all) (auto simp: columns_tagged_frame)
  from pd_concat_same_columns[OF ne this] cc
  have df: "df = \<lparr>columns = [''name'', ''sex'', ''births'', ''year''], rows = concat (map rows dfs)\<rparr>"
    by simp
  from wr have "fs' = fs(''names.csv.gz'' \<mapsto> Csv (names_csv (concat (map rows dfs))))"
    by (auto simp: to_csv_def names_csv_def df split: option.splits node.splits)
  with rel ne show ?thesis by blast
qed

text \<open>A yearly file whose year \<^verbatim>\<open>int\<close> rejects stops the loop, unless reading a file
  stopped it before.\<close>

lemma babynames_loop_bad_name:
  "(n, f) \<in> set es \<Longrightarrow> endswith n ''txt'' \<Longrightarrow> py_int (py_slice 3 7 n) = Inl e \<Longrightarrow>
   \<exists>e'. babynames_loop rd es acc = Inl e' \<and>
     (e' = ValueError \<or> (\<exists>n' f'. (n', f') \<in> set es \<and> endswith n' ''txt'' \<and> rd f' = Inl e'))"
proof (induction es arbitrary: acc)
  case Nil
  then show ?case by simp
next
  case (Cons a es)
  obtain n' f' where a: "a = (n', f')" by (cases a)
  show ?case
  proof (cases "a = (n, f)")
    case True
    with Cons.prems py_int_error[OF Cons.prems(3)] show ?thesis
      by (cases "rd f") auto
  next
    case False
    with Cons.prems have "(n, f) \<in> set es" by simp
    from Cons.IH[OF this Cons.prems(2,3)] have IH:
      "\<And>acc. \<exists>e'. babynames_loop rd es acc = Inl e' \<and>
     (e' = ValueError \<or> (\<exists>n' f'. (n', f') \<in> set es \<and> endswith n' ''txt'' \<and> rd f' = Inl e'))"
      by blast
    show ?thesis
    proof (cases "endswith n' ''txt''")
      case nt: False
      with IH[of acc] a show ?thesis by auto
    next
      case t: True
      show ?thesis
      proof (cases "rd f'")
        case (Inl e1)
        with t a show ?thesis by auto
      next
        case (Inr body)
        show ?thesis
        proof (cases "py_int (py_slice 3 7 n')")
          case (Inl e2)
          with py_int_error[OF this] t a Inr show ?thesis by simp
        next
          case y: (Inr y)
          from IH[of "acc @ [assign ''year'' (PyInt y)
                        \<lparr>columns = names_columns, rows = map (\<lambda>(a, b, c). [a, b, c]) body\<rparr>]"]
            t a Inr y show ?thesis by auto
        qed
      qed
    qed
  qed
qed

lemma list_all2_row_counts:
  "list_all2 (\<lambda>e d. \<exists>body y. rd (snd e) = Inr body \<and> py_int (py_slice 3 7 (fst e)) = Inr y \<and>
                  d = tagged_frame body y) es dfs \<Longrightarrow>
   length (concat (map rows dfs)) = sum_list (map (file_row_count rd) es)"
  by (induction rule: list_all2_induct) (auto simp: file_row_count_def tagged_frame_def)

text \<open>\<^verbatim>\<open>int\<close> accepts every non-empty string of digits.\<close>

lemma isdigit_not_whitespace: "isdigit c \<Longrightarrow> \<not> int_whitespace c"
  by (auto simp: isdigit_def int_whitespace_def Let_def)

lemma int_digits_all_digits:
  "list_all isdigit s \<Longrightarrow> s \<noteq> [] \<or> seen \<Longrightarrow> \<exists>y. int_digits acc seen s = Inr y"
  by (induction s arbitrary: acc seen) auto

lemma py_strip_digits: "numeric_string s \<Longrightarrow> py_strip s = s"
proof -
  assume n: "numeric_string s"
  then have 1: "dropWhile int_whitespace s = s"
    by (cases s) (auto simp: numeric_string_def isdigit_not_whitespace)
  from n have "\<not> int_whitespace (last s)"
    by (auto simp: numeric_string_def list_all_iff intro!: isdigit_not_whitespace)
  with n have 2: "dropWhile int_whitespace (rev s) = rev s"
    by (cases "rev s") (auto simp: numeric_string_def last_rev hd_rev)
  from 1 2 show ?thesis by (simp add: py_strip_def)
qed

lemma py_int_numeric: "numeric_string s \<Longrightarrow> \<exists>y. py_int s = Inr y"
proof -
  assume n: "numeric_string s"
  then obtain c cs where s: "s = c # cs" by (cases s) (auto simp: numeric_string_def)
  with n have d: "isdigit c" by (simp add: numeric_string_def)
  then have "c \<noteq> CHR ''-''" "c \<noteq> CHR ''+''" by (auto simp: isdigit_def)
  moreover from n have "\<exists>y. int_digits 0 False s = Inr y"
    by (intro int_digits_all_digits) (auto simp: numeric_string_def)
  ultimately show ?thesis
    using py_strip_digits[OF n] s by (simp add: py_int_def)
qed

text \<open>The example run.\<close>

lemma py_int_2000: "py_int (py_slice 3 7 ''yob2000.txt'') = Inr 2000"
  by (simp add: py_int_def py_slice_def py_strip_def int_whitespace_def isdigit_def digit_value_def)

lemma py_int_2001: "py_int (py_slice 3 7 ''yob2001.txt'') = Inr 2001"
  by (simp add: py_int_def py_slice_def py_strip_def int_whitespace_def isdigit_def digit_value_def)

lemma demo_dir_entry: "demo_fs ''data-us'' = Some (Dir demo_dir)"
  by (simp add: demo_fs_def)

lemma demo_run:
  "cell_combine demo_read_csv demo_fs =
     (Inr (), demo_fs(''names.csv.gz'' \<mapsto> Csv (names_csv demo_rows)))"
  by (simp add: cell_combine_def iterdir_def demo_fs_def demo_dir_def demo_read_csv_def
      mary_file_def john_file_def endswith_def py_int_2000 py_int_2001 assign_def
      names_columns_def pd_concat_def to_csv_def names_csv_def demo_rows_def)

text \<open>The cell fails, and writes nothing, when the loop fails.\<close>

lemma cell_combine_bad_name:
  assumes "fs ''data-us'' = Some (Dir es)"
    and "(name, file) \<in> set es" and "endswith name ''txt''"
    and "py_int (py_slice 3 7 name) = Inl e"
  shows "\<exists>e'. cell_combine read_csv fs = (Inl e', fs) \<and>
     (e' = ValueError \<or>
      (\<exists>n' f'. (n', f') \<in> set es \<and> endswith n' ''txt'' \<and> read_csv f' = Inl e'))"
proof -
  from assms(1) have it: "iterdir fs ''data-us'' = Inr es"
    by (simp add: iterdir_def)
  from babynames_loop_bad_name[OF assms(2,3,4), of read_csv "[]"] obtain e' where
    "babynames_loop read_csv es [] = Inl e'"
    "e' = ValueError \<or> (\<exists>n' f'. (n', f') \<in> set es \<and> endswith n' ''txt'' \<and> read_csv f' = Inl e')"
    by blast
  with it show ?thesis
    by (simp add: cell_combine_def)
qed

text \<open>The header line of the output, and the clean-up cell.\<close>

lemma header_line_names: "header_line (names_csv rs) = ''name,sex,births,year''"
  by (simp add: header_line_def names_csv_def)

lemma cell_cleanup_result:
  "cell_cleanup fs = (Inr (), fs') \<Longrightarrow> fs' = fs(''names.zip'' := None, ''data-us'' := None)"
  by (auto simp: cell_cleanup_def os_remove_def shutil_rmtree_def
      split: option.splits node.splits if_splits prod.splits sum.splits)

lemma cell_cleanup_runs:
  "fs ''names.zip'' = Some (File z) \<Longrightarrow> fs ''data-us'' = Some (Dir es) \<Longrightarrow>
   cell_cleanup fs = (Inr (), fs(''names.zip'' := None, ''data-us'' := None))"
  by (simp add: cell_cleanup_def os_remove_def shutil_rmtree_def)

text \<open>The cell succeeds when the directory holds a yearly file, every yearly file is
  read and named with a year \<^verbatim>\<open>int\<close> accepts, and the output path is free.\<close>

lemma babynames_loop_runs:
  "list_all (\<lambda>e. \<exists>body y. rd (snd e) = Inr body \<and> py_int (py_slice 3 7 (fst e)) = Inr y)
     (filter is_txt es) \<Longrightarrow>
   \<exists>dfs. babynames_loop rd es acc = Inr dfs"
proof (induction es arbitrary: acc)
  case Nil
  then show ?case by simp
next
  case (Cons e es)
  obtain n f where e: "e = (n, f)" by (cases e)
  show ?case
  proof (cases "endswith n ''txt''")
    case False
    with Cons e show ?thesis by (simp add: is_txt_pair)
  next
    case True
    with Cons.prems e obtain body y where "rd f = Inr body" "py_int (py_slice 3 7 n) = Inr y"
      and rest: "list_all (\<lambda>e. \<exists>body y. rd (snd e) = Inr body \<and> py_int (py_slice 3 7 (fst e)) = Inr y)
         (filter is_txt es)"
      by (auto simp: is_txt_pair)
    with Cons.IH[OF rest] e True show ?thesis by simp
  qed
qed

lemma cell_combine_runs:
  assumes dir: "fs ''data-us'' = Some (Dir es)"
    and some: "filter is_txt es \<noteq> []"
    and ok: "list_all (\<lambda>e. \<exists>body y. rd (snd e) = Inr body \<and> py_int (py_slice 3 7 (fst e)) = Inr y)
               (filter is_txt es)"
    and out: "\<forall>d. fs ''names.csv.gz'' \<noteq> Some (Dir d)"
  shows "\<exists>fs'. cell_combine rd fs = (Inr (), fs')"
proof -
  from dir have it: "iterdir fs ''data-us'' = Inr es"
    by (simp add: iterdir_def)
  from babynames_loop_runs[OF ok] obtain dfs where loop: "babynames_loop rd es [] = Inr dfs"
    by blast
  from babynames_loop_acc[OF loop] have rel:
    "list_all2 (\<lambda>e d. \<exists>body y. rd (snd e) = Inr body \<and> py_int (py_slice 3 7 (fst e)) = Inr y \<and>
                  d = tagged_frame body y) (filter is_txt es) dfs"
    by simp
  with some have ne: "dfs \<noteq> []"
    by (auto dest: list_all2_lengthD)
  from rel have "list_all (\<lambda>d. columns d = [''name'', ''sex'', ''births'', ''year'']) dfs"
    by (rule list_all2_right_all) (auto simp: columns_tagged_frame)
  from pd_concat_same_columns[OF ne this] obtain df where cc: "pd_concat dfs = Inr df"
    by blast
  from out have "\<exists>fs'. to_csv ''names.csv.gz'' df False Gzip fs = (Inr (), fs')"
    by (auto simp: to_csv_def split: option.splits node.splits)
  with it loop cc show ?thesis
    by (simp add: cell_combine_def)
qed

text \<open>
  Claim C1. When the cell succeeds, \<^verbatim>\<open>names.csv.gz\<close> holds the stacked frames of the
  yearly files, one per entry whose name ends in \<^verbatim>\<open>txt\<close>, in the order of the directory.
  The frame that originates from a file has the columns name, sex, births and year, its
  rows are the rows read from the file, and the year cell of every one of them is the
  integer \<^verbatim>\<open>int\<close> parses from characters 3 to 7 of the file's name.
\<close>

theorem names_year_from_filename:
  assumes "fs ''data-us'' = Some (Dir es)"
    and "cell_combine read_csv fs = (Inr (), (fs' :: ('f, 'x) fs))"
  shows "\<exists>dfs :: 'x frame list.
     list_all2 (\<lambda>e d. \<exists>body year.
                  read_csv (snd e) = Inr body \<and> py_int (py_slice 3 7 (fst e)) = Inr year \<and>
                  columns d = [''name'', ''sex'', ''births'', ''year''] \<and>
                  rows d = map (\<lambda>(a, b, c). [a, b, c, PyInt year]) body)
       (filter is_txt es) dfs \<and>
     fs' ''names.csv.gz'' = Some (Csv (names_csv (concat (map rows dfs))))"
proof -
  let ?R = "\<lambda>e d. \<exists>body year.
                  read_csv (snd e) = Inr body \<and> py_int (py_slice 3 7 (fst e)) = Inr year \<and>
                  columns d = [''name'', ''sex'', ''births'', ''year''] \<and>
                  rows d = map (\<lambda>(a, b, c). [a, b, c, PyInt year]) body"
  from cell_combine_success[OF assms] obtain dfs where
    rel: "list_all2 (\<lambda>e d. \<exists>body y. read_csv (snd e) = Inr body \<and>
                  py_int (py_slice 3 7 (fst e)) = Inr y \<and> d = tagged_frame body y)
            (filter is_txt es) dfs"
    and out: "fs' = fs(''names.csv.gz'' \<mapsto> Csv (names_csv (concat (map rows dfs))))"
    by blast
  from rel have rel': "list_all2 ?R (filter is_txt es) dfs"
    by (rule list_all2_mono) (auto simp: tagged_frame_def)
  from out have out': "fs' ''names.csv.gz'' = Some (Csv (names_csv (concat (map rows dfs))))"
    by simp
  show ?thesis
  proof (rule exI[where x = dfs], rule conjI)
    show "list_all2 ?R (filter is_txt es) dfs" by (rule rel')
    show "fs' ''names.csv.gz'' = Some (Csv (names_csv (concat (map rows dfs))))" by (rule out')
  qed
qed

theorem names_year_from_filename_witness:
  "demo_fs ''data-us'' = Some (Dir demo_dir) \<and>
   cell_combine demo_read_csv demo_fs =
     (Inr (), demo_fs(''names.csv.gz'' \<mapsto> Csv (names_csv demo_rows))) \<and>
   (\<exists>dfs :: unit frame list.
     list_all2 (\<lambda>e d. \<exists>body year.
                  demo_read_csv (snd e) = Inr body \<and> py_int (py_slice 3 7 (fst e)) = Inr year \<and>
                  columns d = [''name'', ''sex'', ''births'', ''year''] \<and>
                  rows d = map (\<lambda>(a, b, c). [a, b, c, PyInt year]) body)
       (filter is_txt demo_dir) dfs \<and>
     (demo_fs(''names.csv.gz'' \<mapsto> Csv (names_csv demo_rows))) ''names.csv.gz'' =
       Some (Csv (names_csv (concat (map rows dfs)))))"
proof (intro conjI)
  show "demo_fs ''data-us'' = Some (Dir demo_dir)" by (rule demo_dir_entry)
  show "cell_combine demo_read_csv demo_fs =
     (Inr (), demo_fs(''names.csv.gz'' \<mapsto> Csv (names_csv demo_rows)))"
    by (rule demo_run)
qed (rule names_year_from_filename[OF demo_dir_entry demo_run])

text \<open>
  Claim C2. When the cell succeeds, the number of rows written to \<^verbatim>\<open>names.csv.gz\<close> is
  the sum of the numbers of rows of the yearly files of the directory.
\<close>

theorem names_row_count:
  assumes "fs ''data-us'' = Some (Dir es)"
    and "cell_combine read_csv fs = (Inr (), (fs' :: ('f, 'x) fs))"
  shows "\<exists>out. fs' ''names.csv.gz'' = Some (Csv out) \<and>
     length (rows (csv_frame out)) = sum_list (map (file_row_count read_csv) (filter is_txt es))"
proof -
  from cell_combine_success[OF assms] obtain dfs where
    rel: "list_all2 (\<lambda>e d. \<exists>body y. read_csv (snd e) = Inr body \<and>
                  py_int (py_slice 3 7 (fst e)) = Inr y \<and> d = tagged_frame body y)
            (filter is_txt es) dfs"
    and out: "fs' = fs(''names.csv.gz'' \<mapsto> Csv (names_csv (concat (map rows dfs))))"
    by blast
  from list_all2_row_counts[OF rel] out show ?thesis
    by (simp add: names_csv_def)
qed

theorem names_row_count_witness:
  "demo_fs ''data-us'' = Some (Dir demo_dir) \<and>
   cell_combine demo_read_csv demo_fs =
     (Inr (), demo_fs(''names.csv.gz'' \<mapsto> Csv (names_csv demo_rows))) \<and>
   sum_list (map (file_row_count demo_read_csv) (filter is_txt demo_dir)) = 2 \<and>
   (\<exists>out. (demo_fs(''names.csv.gz'' \<mapsto> Csv (names_csv demo_rows))) ''names.csv.gz'' = Some (Csv out) \<and>
     length (rows (csv_frame out)) =
       sum_list (map (file_row_count demo_read_csv) (filter is_txt demo_dir)))"
proof (intro conjI)
  show "demo_fs ''data-us'' = Some (Dir demo_dir)" by (rule demo_dir_entry)
  show "cell_combine demo_read_csv demo_fs =
     (Inr (), demo_fs(''names.csv.gz'' \<mapsto> Csv (names_csv demo_rows)))"
    by (rule demo_run)
  show "sum_list (map (file_row_count demo_read_csv) (filter is_txt demo_dir)) = 2"
    by (simp add: demo_dir_def is_txt_def endswith_def file_row_count_def demo_read_csv_def
        mary_file_def john_file_def)
qed (rule names_row_count[OF demo_dir_entry demo_run])

text \<open>
  Claim C5, as stated, fails: it says that a yearly file whose characters 3 to 7 are not
  a numeric string makes the run fail. \<^verbatim>\<open>int\<close> strips whitespace and accepts a sign
  and underscores between digits, so it accepts strings that are not strings of digits.
  For the file \<^verbatim>\<open>yob 1999.txt\<close> the slice is a blank and \<^verbatim>\<open>199\<close>: the run succeeds and
  writes the year 199.
\<close>

theorem names_nonnumeric_year_counterexample:
  "blank_fs ''data-us'' = Some (Dir [(''yob 1999.txt'', mary_file)]) \<and>
   endswith ''yob 1999.txt'' ''txt'' \<and>
   \<not> numeric_string (py_slice 3 7 ''yob 1999.txt'') \<and>
   py_int (py_slice 3 7 ''yob 1999.txt'') = Inr 199 \<and>
   cell_combine demo_read_csv blank_fs =
     (Inr (), blank_fs(''names.csv.gz'' \<mapsto>
        Csv (names_csv [[PyStr ''Mary'', PyStr ''F'', PyInt 100, PyInt 199]])))"
proof -
  have y: "py_int (py_slice 3 7 ''yob 1999.txt'') = Inr 199"
    by (simp add: py_int_def py_slice_def py_strip_def int_whitespace_def isdigit_def digit_value_def)
  have n: "\<not> numeric_string (py_slice 3 7 ''yob 1999.txt'')"
    by (simp add: numeric_string_def py_slice_def isdigit_def)
  have r: "cell_combine demo_read_csv blank_fs =
     (Inr (), blank_fs(''names.csv.gz'' \<mapsto>
        Csv (names_csv [[PyStr ''Mary'', PyStr ''F'', PyInt 100, PyInt 199]])))"
    by (simp add: cell_combine_def iterdir_def blank_fs_def demo_read_csv_def mary_file_def
        endswith_def y assign_def names_columns_def pd_concat_def to_csv_def names_csv_def)
  have d: "blank_fs ''data-us'' = Some (Dir [(''yob 1999.txt'', mary_file)])"
    by (simp add: blank_fs_def)
  have e: "endswith ''yob 1999.txt'' ''txt''"
    by (simp add: endswith_def)
  from d e n y r show ?thesis by simp
qed

text \<open>
  Claim C5, amended. A yearly file whose characters 3 to 7 are rejected by \<^verbatim>\<open>int\<close>
  (such a slice is never a string of digits) makes the cell fail, and the file system is
  left as it was: nothing is written. The exception is the \<^verbatim>\<open>ValueError\<close> of \<^verbatim>\<open>int\<close>,
  or the exception the reader raised on a yearly file of the directory.
\<close>

theorem names_rejected_year_fails:
  assumes "fs ''data-us'' = Some (Dir es)"
    and "(name, file) \<in> set es" and "endswith name ''txt''"
    and "py_int (py_slice 3 7 name) = Inl e"
  shows "\<not> numeric_string (py_slice 3 7 name) \<and>
     (\<exists>e'. cell_combine read_csv fs = (Inl e', fs) \<and>
       (e' = ValueError \<or>
        (\<exists>n' f'. (n', f') \<in> set es \<and> endswith n' ''txt'' \<and> read_csv f' = Inl e')))"
proof
  from assms(4) py_int_numeric[of "py_slice 3 7 name"]
  show "\<not> numeric_string (py_slice 3 7 name)" by auto
  show "\<exists>e'. cell_combine read_csv fs = (Inl e', fs) \<and>
       (e' = ValueError \<or>
        (\<exists>n' f'. (n', f') \<in> set es \<and> endswith n' ''txt'' \<and> read_csv f' = Inl e'))"
    using assms by (rule cell_combine_bad_name)
qed

theorem names_rejected_year_fails_witness:
  "letter_fs ''data-us'' = Some (Dir letter_dir) \<and>
   (''yob20x1.txt'', john_file) \<in> set letter_dir \<and>
   endswith ''yob20x1.txt'' ''txt'' \<and>
   py_int (py_slice 3 7 ''yob20x1.txt'') = Inl ValueError \<and>
   cell_combine demo_read_csv letter_fs = (Inl ValueError, letter_fs) \<and>
   \<not> numeric_string (py_slice 3 7 ''yob20x1.txt'') \<and>
   (\<exists>e'. cell_combine demo_read_csv letter_fs = (Inl e', letter_fs) \<and>
       (e' = ValueError \<or>
        (\<exists>n' f'. (n', f') \<in> set letter_dir \<and> endswith n' ''txt'' \<and> demo_read_csv f' = Inl e')))"
proof -
  have d: "letter_fs ''data-us'' = Some (Dir letter_dir)"
    by (simp add: letter_fs_def)
  have m: "(''yob20x1.txt'', john_file) \<in> set letter_dir"
    by (simp add: letter_dir_def)
  have t: "endswith ''yob20x1.txt'' ''txt''"
    by (simp add: endswith_def)
  have y: "py_int (py_slice 3 7 ''yob20x1.txt'') = Inl ValueError"
    by (simp add: py_int_def py_slice_def py_strip_def int_whitespace_def isdigit_def digit_value_def)
  have r: "cell_combine demo_read_csv letter_fs = (Inl ValueError, letter_fs)"
    by (simp add: cell_combine_def iterdir_def letter_fs_def letter_dir_def demo_read_csv_def
        mary_file_def john_file_def endswith_def py_int_2000 y)
  note th = names_rejected_year_fails[where fs = letter_fs and read_csv = demo_read_csv, OF d m t y]
  from d m t y r th show ?thesis by simp
qed

text \<open>
  Claim C6. The scratch directory holds exactly \<^verbatim>\<open>yob2000.txt\<close>, where the reader finds
  the row Mary, F, 100, and \<^verbatim>\<open>yob2001.txt\<close>, where it finds John, M, 50, in either order
  of iteration. Then the cell succeeds and writes \<^verbatim>\<open>names.csv.gz\<close> with gzip compression,
  without an index column, with the header line \<^verbatim>\<open>name,sex,births,year\<close> and exactly the
  two rows Mary, F, 100, 2000 and John, M, 50, 2001.
\<close>

theorem names_two_files:
  assumes f0: "read_csv f0 = Inr [(PyStr ''Mary'', PyStr ''F'', PyInt 100)]"
    and f1: "read_csv f1 = Inr [(PyStr ''John'', PyStr ''M'', PyInt 50)]"
    and dir: "fs ''data-us'' = Some (Dir es)"
    and es: "es = [(''yob2000.txt'', f0), (''yob2001.txt'', f1)] \<or>
             es = [(''yob2001.txt'', f1), (''yob2000.txt'', f0)]"
    and out: "\<forall>d. fs ''names.csv.gz'' \<noteq> Some (Dir d)"
  shows "\<exists>out. cell_combine read_csv fs = (Inr (), fs(''names.csv.gz'' \<mapsto> Csv out)) \<and>
     header_line out = ''name,sex,births,year'' \<and>
     \<not> csv_index out \<and> csv_compression out = Gzip \<and>
     columns (csv_frame out) = [''name'', ''sex'', ''births'', ''year''] \<and>
     length (rows (csv_frame out)) = 2 \<and>
     set (rows (csv_frame out)) =
       {[PyStr ''Mary'', PyStr ''F'', PyInt 100, PyInt 2000],
        [PyStr ''John'', PyStr ''M'', PyInt 50, PyInt 2001]}"
proof -
  from dir have it: "iterdir fs ''data-us'' = Inr es"
    by (simp add: iterdir_def)
  from out have wr: "\<And>df. to_csv ''names.csv.gz'' df False Gzip fs =
      (Inr (), fs(''names.csv.gz'' \<mapsto> Csv \<lparr>csv_frame = df, csv_index = False, csv_compression = Gzip\<rparr>))"
    by (auto simp: to_csv_def split: option.splits node.splits)
  from es show ?thesis
  proof
    assume "es = [(''yob2000.txt'', f0), (''yob2001.txt'', f1)]"
    then have "cell_combine read_csv fs = (Inr (), fs(''names.csv.gz'' \<mapsto> Csv (names_csv
        [[PyStr ''Mary'', PyStr ''F'', PyInt 100, PyInt 2000],
         [PyStr ''John'', PyStr ''M'', PyInt 50, PyInt 2001]])))"
      by (simp add: cell_combine_def it f0 f1 endswith_def py_int_2000 py_int_2001 assign_def
          names_columns_def pd_concat_def wr names_csv_def)
    then show ?thesis
      by (intro exI[of _ "names_csv [[PyStr ''Mary'', PyStr ''F'', PyInt 100, PyInt 2000],
         [PyStr ''John'', PyStr ''M'', PyInt 50, PyInt 2001]]"])
        (simp add: header_line_names, simp add: names_csv_def)
  next
    assume "es = [(''yob2001.txt'', f1), (''yob2000.txt'', f0)]"
    then have "cell_combine read_csv fs = (Inr (), fs(''names.csv.gz'' \<mapsto> Csv (names_csv
        [[PyStr ''John'', PyStr ''M'', PyInt 50, PyInt 2001],
         [PyStr ''Mary'', PyStr ''F'', PyInt 100, PyInt 2000]])))"
      by (simp add: cell_combine_def it f0 f1 endswith_def py_int_2000 py_int_2001 assign_def
          names_columns_def pd_concat_def wr names_csv_def)
    then show ?thesis
      by (intro exI[of _ "names_csv [[PyStr ''John'', PyStr ''M'', PyInt 50, PyInt 2001],
         [PyStr ''Mary'', PyStr ''F'', PyInt 100, PyInt 2000]]"])
        (simp add: header_line_names, auto simp add: names_csv_def)
  qed
qed

theorem names_two_files_witness:
  "demo_read_csv mary_file = Inr [(PyStr ''Mary'', PyStr ''F'', PyInt 100)] \<and>
   demo_read_csv john_file = Inr [(PyStr ''John'', PyStr ''M'', PyInt 50)] \<and>
   pair_fs ''data-us'' = Some (Dir pair_dir) \<and>
   pair_dir = [(''yob2001.txt'', john_file), (''yob2000.txt'', mary_file)] \<and>
   pair_fs ''names.csv.gz'' = None \<and>
   (\<exists>out. cell_combine demo_read_csv pair_fs = (Inr (), pair_fs(''names.csv.gz'' \<mapsto> Csv out)) \<and>
     header_line out = ''name,sex,births,year'' \<and>
     \<not> csv_index out \<and> csv_compression out = Gzip \<and>
     columns (csv_frame out) = [''name'', ''sex'', ''births'', ''year''] \<and>
     length (rows (csv_frame out)) = 2 \<and>
     set (rows (csv_frame out)) =
       {[PyStr ''Mary'', PyStr ''F'', PyInt 100, PyInt 2000],
        [PyStr ''John'', PyStr ''M'', PyInt 50, PyInt 2001]})"
proof -
  have f0: "demo_read_csv mary_file = Inr [(PyStr ''Mary'', PyStr ''F'', PyInt 100)]"
    by (simp add: demo_read_csv_def mary_file_def)
  have f1: "demo_read_csv john_file = Inr [(PyStr ''John'', PyStr ''M'', PyInt 50)]"
    by (simp add: demo_read_csv_def john_file_def)
  have d: "pair_fs ''data-us'' = Some (Dir pair_dir)"
    by (simp add: pair_fs_def)
  have es: "pair_dir = [(''yob2000.txt'', mary_file), (''yob2001.txt'', john_file)] \<or>
            pair_dir = [(''yob2001.txt'', john_file), (''yob2000.txt'', mary_file)]"
    by (simp add: pair_dir_def)
  have n: "pair_fs ''names.csv.gz'' = None"
    by (simp add: pair_fs_def)
  then have o: "\<forall>d. pair_fs ''names.csv.gz'' \<noteq> Some (Dir d)"
    by simp
  note th = names_two_files[where fs = pair_fs and read_csv = demo_read_csv, OF f0 f1 d es o]
  show ?thesis
  proof (intro conjI)
    show "demo_read_csv mary_file = Inr [(PyStr ''Mary'', PyStr ''F'', PyInt 100)]" by (rule f0)
    show "demo_read_csv john_file = Inr [(PyStr ''John'', PyStr ''M'', PyInt 50)]" by (rule f1)
    show "pair_fs ''data-us'' = Some (Dir pair_dir)" by (rule d)
    show "pair_dir = [(''yob2001.txt'', john_file), (''yob2000.txt'', mary_file)]"
      by (simp add: pair_dir_def)
    show "pair_fs ''names.csv.gz'' = None" by (rule n)
  qed (rule th)
qed

text \<open>
  Claim C9. After the cell has written \<^verbatim>\<open>names.csv.gz\<close>, with the downloaded archive
  \<^verbatim>\<open>names.zip\<close> and the directory \<^verbatim>\<open>data-us\<close> in place, the clean-up cell succeeds and
  removes exactly these two: in the file system it leaves, both are absent and
  \<^verbatim>\<open>names.csv.gz\<close> is the file that was written.
\<close>

theorem cleanup_removes_temporaries:
  assumes "fs ''names.zip'' = Some (File z)"
    and "fs ''data-us'' = Some (Dir es)"
    and "cell_combine read_csv fs = (Inr (), (fs1 :: ('f, 'x) fs))"
  shows "\<exists>out. fs1 ''names.csv.gz'' = Some (Csv out) \<and>
     cell_cleanup fs1 = (Inr (), fs1(''names.zip'' := None, ''data-us'' := None)) \<and>
     (fs1(''names.zip'' := None, ''data-us'' := None)) ''names.csv.gz'' = Some (Csv out) \<and>
     (fs1(''names.zip'' := None, ''data-us'' := None)) ''names.zip'' = None \<and>
     (fs1(''names.zip'' := None, ''data-us'' := None)) ''data-us'' = None"
proof -
  from cell_combine_success[OF assms(2,3)] obtain dfs :: "'x frame list" where
    fs1: "fs1 = fs(''names.csv.gz'' \<mapsto> Csv (names_csv (concat (map rows dfs))))"
    by blast
  from fs1 assms(1,2) have "fs1 ''names.zip'' = Some (File z)" "fs1 ''data-us'' = Some (Dir es)"
    by simp_all
  from cell_cleanup_runs[OF this]
  have c: "cell_cleanup fs1 = (Inr (), fs1(''names.zip'' := None, ''data-us'' := None))" .
  from fs1 have o: "fs1 ''names.csv.gz'' = Some (Csv (names_csv (concat (map rows dfs))))"
    by simp
  from c o show ?thesis by simp
qed

theorem cleanup_removes_temporaries_witness:
  "demo_fs ''names.zip'' = Some (File []) \<and>
   demo_fs ''data-us'' = Some (Dir demo_dir) \<and>
   cell_combine demo_read_csv demo_fs =
     (Inr (), demo_fs(''names.csv.gz'' \<mapsto> Csv (names_csv demo_rows))) \<and>
   cell_cleanup (demo_fs(''names.csv.gz'' \<mapsto> Csv (names_csv demo_rows))) =
     (Inr (), [''names.csv.gz'' \<mapsto> Csv (names_csv demo_rows)])"
proof -
  have z: "demo_fs ''names.zip'' = Some (File [])"
    by (simp add: demo_fs_def)
  note th = cleanup_removes_temporaries[OF z demo_dir_entry demo_run]
  have e: "(demo_fs(''names.csv.gz'' \<mapsto> Csv (names_csv demo_rows)))
             (''names.zip'' := None, ''data-us'' := None) =
           [''names.csv.gz'' \<mapsto> Csv (names_csv demo_rows)]"
    by (rule ext) (simp add: demo_fs_def)
  from th e have "cell_cleanup (demo_fs(''names.csv.gz'' \<mapsto> Csv (names_csv demo_rows))) =
     (Inr (), [''names.csv.gz'' \<mapsto> Csv (names_csv demo_rows)])"
    by auto
  with z demo_dir_entry demo_run show ?thesis by simp
qed

section \<open>Properties of the life-table pipeline\<close>

text \<open>Comprehensions: a result for every element, or the first exception.\<close>

lemma traverse_Inr:
  "traverse f xs = Inr ys \<Longrightarrow> list_all2 (\<lambda>x y. f x = Inr y) xs ys"
  by (induction xs arbitrary: ys) (auto split: sum.splits)

lemma traverse_Inl:
  "x \<in> set xs \<Longrightarrow> f x = Inl e \<Longrightarrow> \<exists>e'. traverse f xs = Inl e'"
  by (induction xs) (auto split: sum.splits)

lemma traverse_all_Inr:
  "list_all2 (\<lambda>x y. f x = Inr y) xs ys \<Longrightarrow> traverse f xs = Inr ys"
  by (induction rule: list_all2_induct) auto

text \<open>Every frame the pipeline builds is rectangular.\<close>

lemma foldr_max_ge: "r \<in> set data \<Longrightarrow> length r \<le> foldr max (map length data) 0"
  by (induction data) auto

lemma pd_DataFrame_ok: "pd_DataFrame data cols = Inr df \<Longrightarrow> frame_ok df"
  by (auto simp: pd_DataFrame_def frame_ok_def Let_def list_all_iff foldr_max_ge
      split: if_splits)

lemma pd_DataFrame_columns: "pd_DataFrame data cols = Inr df \<Longrightarrow> columns df = cols"
  by (auto simp: pd_DataFrame_def Let_def split: if_splits)

lemma pd_DataFrame_rows:
  "pd_DataFrame data cols = Inr df \<Longrightarrow>
   list_all2 (\<lambda>src r. take (length src) r = src) data (rows df)"
  by (auto simp: pd_DataFrame_def Let_def list_all2_conv_all_nth split: if_splits)

lemma build_df_parts:
  assumes "build_df env lifetable = Inr df"
  shows "\<exists>data header.
     traverse (traverse (parse_cell env)) (drop 4 lifetable) = Inr data \<and>
     py_index lifetable 1 = Inr header \<and>
     traverse (parse_header env) header = Inr (columns df) \<and>
     pd_DataFrame data (columns df) = Inr df"
proof -
  from assms obtain data header cols where
    d: "traverse (traverse (parse_cell env)) (drop 4 lifetable) = Inr data"
    and h: "py_index lifetable 1 = Inr header"
    and c: "traverse (parse_header env) header = Inr cols"
    and f: "pd_DataFrame data cols = Inr df"
    by (auto simp: build_df_def split: sum.splits)
  from pd_DataFrame_columns[OF f] d h c f show ?thesis by auto
qed

lemma build_df_ok: "build_df env lifetable = Inr df \<Longrightarrow> frame_ok df"
  using build_df_parts pd_DataFrame_ok by blast

lemma frame_ok_assign: "frame_ok df \<Longrightarrow> frame_ok (assign c v df)"
  by (auto simp: frame_ok_def assign_def list_all_iff)

lemma frame_ok_rename: "frame_ok df \<Longrightarrow> frame_ok (rename a b df)"
  by (simp add: frame_ok_def rename_def)

lemma frame_ok_dropna: "frame_ok df \<Longrightarrow> frame_ok (dropna env df)"
  by (simp add: frame_ok_def dropna_def list_all_iff)

lemma frame_ok_iloc_until: "frame_ok df \<Longrightarrow> frame_ok (iloc_until n df)"
  by (simp add: frame_ok_def iloc_until_def list_all_iff)

lemma frame_ok_iloc_from: "frame_ok df \<Longrightarrow> frame_ok (iloc_from n df)"
  by (simp add: frame_ok_def iloc_from_def list_all_iff)

lemma frame_ok_pd_concat:
  "pd_concat dfs = Inr c \<Longrightarrow> list_all frame_ok dfs \<Longrightarrow> frame_ok c"
  by (cases dfs)
    (auto simp: pd_concat_def frame_ok_def list_all_iff reindex_def Let_def split: if_splits)

lemma frame_ok_parse_lifetable:
  assumes "parse_lifetable env lifetable year = Inr out"
  shows "frame_ok out"
proof -
  from assms obtain df both where
    df: "build_df env lifetable = Inr df"
    and both: "pd_concat [df_male df, df_female df] = Inr both"
    and out: "out = dropna env (assign ''year'' (PyInt year) (rename ''x'' ''age'' both))"
    by (auto simp: parse_lifetable_def split: sum.splits)
  from build_df_ok[OF df] have "list_all frame_ok [df_male df, df_female df]"
    by (simp add: df_male_def df_female_def frame_ok_assign frame_ok_iloc_until frame_ok_iloc_from)
  from frame_ok_pd_concat[OF both this] out show ?thesis
    by (simp add: frame_ok_dropna frame_ok_assign frame_ok_rename)
qed

text \<open>The cells under a label, through each operation on frames.\<close>

lemma mem_column_values:
  "x \<in> set (column_values c df) \<longleftrightarrow> (\<exists>r \<in> set (rows df). (c, x) \<in> set (zip (columns df) r))"
  by (force simp: column_values_def)

lemma assign_cell:
  assumes "frame_ok df" and "x \<in> set (column_values c (assign c v df))"
  shows "x = v"
proof (cases "c \<in> set (columns df)")
  case True
  with assms(2) obtain r where r: "r \<in> set (rows df)"
    and m: "(c, x) \<in> set (zip (columns df) (map (\<lambda>(n, x). if n = c then v else x) (zip (columns df) r)))"
    by (auto simp: mem_column_values assign_def)
  from m obtain i where "i < length (columns df)" "i < length r" "columns df ! i = c"
    "x = (\<lambda>(n, x). if n = c then v else x) (zip (columns df) r ! i)"
    by (auto simp: in_set_zip)
  then show ?thesis by simp
next
  case False
  with assms(2) obtain r where r: "r \<in> set (rows df)"
    and m: "(c, x) \<in> set (zip (columns df @ [c]) (r @ [v]))"
    by (auto simp: mem_column_values assign_def)
  from assms(1) r have "length r = length (columns df)"
    by (simp add: frame_ok_def list_all_iff)
  with m have "(c, x) \<in> set (zip (columns df) r) \<or> x = v"
    by auto
  with False show ?thesis
    by (auto dest: set_zip_leftD)
qed

lemma assign_has_column: "c \<in> set (columns (assign c v df))"
  by (simp add: assign_def)

lemma column_values_dropna:
  "x \<in> set (column_values c (dropna env df)) \<Longrightarrow> x \<in> set (column_values c df)"
  by (auto simp: mem_column_values dropna_def)

lemma columns_dropna: "columns (dropna env df) = columns df"
  by (simp add: dropna_def)

lemma zip_relabel:
  "c \<noteq> a \<Longrightarrow> c \<noteq> b \<Longrightarrow>
   (c, x) \<in> set (zip (map (\<lambda>l. if l = a then b else l) cols) r) \<longleftrightarrow> (c, x) \<in> set (zip cols r)"
  by (force simp: zip_map1 image_iff split: if_splits)

lemma column_values_rename:
  assumes "c \<noteq> a" and "c \<noteq> b"
  shows "set (column_values c (rename a b df)) = set (column_values c df)"
  using assms by (auto simp: mem_column_values rename_def zip_relabel)

lemma columns_rename_mem:
  "c \<noteq> a \<Longrightarrow> c \<noteq> b \<Longrightarrow> c \<in> set (columns (rename a b df)) \<longleftrightarrow> c \<in> set (columns df)"
  by (auto simp: rename_def)

lemma reindex_cell:
  assumes "length r = length cols" and "c \<in> set cols"
    and "(c, x) \<in> set (zip target (reindex cols target r))"
  shows "(c, x) \<in> set (zip cols r)"
proof -
  from assms(3) have x: "x = (case map_of (zip cols r) c of None \<Rightarrow> PyNone | Some v \<Rightarrow> v)"
    by (auto simp: reindex_def in_set_zip)
  from assms(1,2) have "c \<in> fst ` set (zip cols r)"
    by (simp add: map_fst_zip flip: set_map)
  then obtain v where "map_of (zip cols r) c = Some v"
    by (cases "map_of (zip cols r) c") (auto simp: map_of_eq_None_iff)
  with x show ?thesis
    by (auto dest: map_of_SomeD)
qed

lemma column_values_pd_concat:
  assumes "pd_concat dfs = Inr out"
    and "list_all frame_ok dfs"
    and "list_all (\<lambda>f. c \<in> set (columns f)) dfs"
    and "x \<in> set (column_values c out)"
  shows "\<exists>f \<in> set dfs. x \<in> set (column_values c f)"
proof -
  from assms(1) obtain d ds where dfs: "dfs = d # ds"
    by (cases dfs) (auto simp: pd_concat_def)
  show ?thesis
  proof (cases "list_all (\<lambda>f. columns f = columns d) ds")
    case True
    with assms(1) dfs have out: "out = \<lparr>columns = columns d, rows = concat (map rows dfs)\<rparr>"
      by (simp add: pd_concat_def)
    from True dfs have same: "\<And>f. f \<in> set dfs \<Longrightarrow> columns f = columns d"
      by (auto simp: list_all_iff)
    from assms(4) out obtain f r where f: "f \<in> set dfs" and r: "r \<in> set (rows f)"
      and m: "(c, x) \<in> set (zip (columns d) r)"
      by (auto simp: mem_column_values)
    from m same[OF f] have "(c, x) \<in> set (zip (columns f) r)"
      by simp
    with f r show ?thesis
      unfolding mem_column_values by blast
  next
    case False
    with assms(1) dfs obtain target where
      out: "out = \<lparr>columns = target,
                   rows = concat (map (\<lambda>f. map (reindex (columns f) target) (rows f)) dfs)\<rparr>"
      by (auto simp: pd_concat_def Let_def split: if_splits)
    from assms(4) out obtain f r where f: "f \<in> set dfs" and r: "r \<in> set (rows f)"
      and m: "(c, x) \<in> set (zip target (reindex (columns f) target r))"
      by (auto simp: mem_column_values)
    from assms(2) f r have "length r = length (columns f)"
      by (auto simp: frame_ok_def list_all_iff)
    moreover from assms(3) f have "c \<in> set (columns f)"
      by (auto simp: list_all_iff)
    ultimately have "(c, x) \<in> set (zip (columns f) r)"
      using m by (rule reindex_cell)
    with f r show ?thesis
      unfolding mem_column_values by blast
  qed
qed

lemma parse_lifetable_year:
  assumes "parse_lifetable env lifetable year = Inr out"
  shows "''year'' \<in> set (columns out)"
    and "x \<in> set (column_values ''year'' out) \<Longrightarrow> x = PyInt year"
proof -
  from assms obtain df both where
    df: "build_df env lifetable = Inr df"
    and both: "pd_concat [df_male df, df_female df] = Inr both"
    and out: "out = dropna env (assign ''year'' (PyInt year) (rename ''x'' ''age'' both))"
    by (auto simp: parse_lifetable_def split: sum.splits)
  from out show "''year'' \<in> set (columns out)"
    by (simp add: columns_dropna assign_has_column)
  from build_df_ok[OF df] have "list_all frame_ok [df_male df, df_female df]"
    by (simp add: df_male_def df_female_def frame_ok_assign frame_ok_iloc_until frame_ok_iloc_from)
  from frame_ok_pd_concat[OF both this] have ok: "frame_ok (rename ''x'' ''age'' both)"
    by (rule frame_ok_rename)
  assume "x \<in> set (column_values ''year'' out)"
  with out have "x \<in> set (column_values ''year'' (assign ''year'' (PyInt year) (rename ''x'' ''age'' both)))"
    by (simp add: column_values_dropna)
  with ok show "x = PyInt year"
    by (rule assign_cell)
qed

lemma get_lifetable_year:
  assumes "get_lifetable env year = Inr out"
  shows "frame_ok out" and "''year'' \<in> set (columns out)"
    and "x \<in> set (column_values ''year'' out) \<Longrightarrow> x = PyInt year"
proof -
  from assms obtain lifetable where p: "parse_lifetable env lifetable year = Inr out"
    by (auto simp: get_lifetable_def split: sum.splits)
  from p show "frame_ok out" by (rule frame_ok_parse_lifetable)
  from p show "''year'' \<in> set (columns out)" by (rule parse_lifetable_year)
  assume "x \<in> set (column_values ''year'' out)"
  with p show "x = PyInt year" by (rule parse_lifetable_year)
qed

lemma get_lifetables_parts:
  assumes "get_lifetables env = Inr out"
  shows "\<exists>dfs both. list_all2 (\<lambda>year d. get_lifetable env year = Inr d) (py_range 1900 2100 10) dfs \<and>
     pd_concat dfs = Inr both \<and> out = rename '''' ''ex'' both"
proof -
  from assms obtain dfs both where
    t: "traverse (get_lifetable env) (py_range 1900 2100 10) = Inr dfs"
    and c: "pd_concat dfs = Inr both" and o: "out = rename '''' ''ex'' both"
    by (auto simp: get_lifetables_def Let_def split: sum.splits)
  from traverse_Inr[OF t] c o show ?thesis by blast
qed

lemma list_all2_right_ex:
  "list_all2 P xs ys \<Longrightarrow> y \<in> set ys \<Longrightarrow> \<exists>x \<in> set xs. P x y"
  by (induction rule: list_all2_induct) auto

lemma get_lifetables_years:
  assumes "get_lifetables env = Inr out"
    and "x \<in> set (column_values ''year'' out)"
  shows "x \<in> PyInt ` set (py_range 1900 2100 10)"
proof -
  from get_lifetables_parts[OF assms(1)] obtain dfs both where
    rel: "list_all2 (\<lambda>year d. get_lifetable env year = Inr d) (py_range 1900 2100 10) dfs"
    and c: "pd_concat dfs = Inr both" and o: "out = rename '''' ''ex'' both"
    by blast
  from rel have each: "\<And>d. d \<in> set dfs \<Longrightarrow>
      \<exists>year \<in> set (py_range 1900 2100 10). get_lifetable env year = Inr d"
    by (rule list_all2_right_ex)
  have ok: "list_all frame_ok dfs"
    using each get_lifetable_year(1) by (fastforce simp: list_all_iff)
  have has: "list_all (\<lambda>f. ''year'' \<in> set (columns f)) dfs"
    using each get_lifetable_year(2) by (fastforce simp: list_all_iff)
  from assms(2) o have "x \<in> set (column_values ''year'' both)"
    by (simp add: column_values_rename)
  from column_values_pd_concat[OF c ok has this] obtain d where
    d: "d \<in> set dfs" and x: "x \<in> set (column_values ''year'' d)"
    by blast
  from each[OF d] obtain year where y: "year \<in> set (py_range 1900 2100 10)"
    and g: "get_lifetable env year = Inr d"
    by blast
  from get_lifetable_year(3)[OF g x] y show ?thesis by simp
qed

lemma years_list:
  "py_range 1900 2100 10 =
     [1900, 1910, 1920, 1930, 1940, 1950, 1960, 1970, 1980, 1990,
      2000, 2010, 2020, 2030, 2040, 2050, 2060, 2070, 2080, 2090]"
  by (simp add: py_range.simps)

text \<open>The example table, evaluated in the repaired environment.\<close>

lemmas num_defs = py_int_def py_strip_def int_whitespace_def isdigit_def digit_value_def

lemma repaired_cells:
  "parse_cell repaired_env ''0'' = Inr (PyFloat 0)"
  "parse_cell repaired_env ''1'' = Inr (PyFloat 1)"
  "parse_cell repaired_env ''2'' = Inr (PyFloat 2)"
  "parse_cell repaired_env ''3'' = Inr (PyFloat 3)"
  "parse_cell repaired_env ''4'' = Inr (PyFloat 4)"
  "parse_cell repaired_env ''75'' = Inr (PyFloat 75)"
  "parse_cell repaired_env ''76'' = Inr (PyFloat 76)"
  "parse_cell repaired_env ''80'' = Inr (PyFloat 80)"
  "parse_cell repaired_env ''81'' = Inr (PyFloat 81)"
  "parse_cell repaired_env ''100,000'' = Inr (PyFloat 100000)"
  "parse_cell repaired_env ''99,000'' = Inr (PyFloat 99000)"
  "parse_cell repaired_env ''99,500\<newline>'' = Inr (PyFloat 99500)"
  "parse_cell repaired_env nbsp = Inr PyNone"
  by (simp_all add: parse_cell_def nbsp_def load_global_def repaired_env_def demo_float_def
      re_sub_newline_comma_def num_defs)

lemma repaired_headers:
  "parse_header repaired_env ''x\<newline>'' = Inr ''x''"
  "parse_header repaired_env ''x'' = Inr ''x''"
  "parse_header repaired_env ''q x'' = Inr ''qx''"
  "parse_header repaired_env ''l x'' = Inr ''lx''"
  "parse_header repaired_env ''d x'' = Inr ''dx''"
  "parse_header repaired_env ''L x'' = Inr ''Lx''"
  "parse_header repaired_env ''T x'' = Inr ''Tx''"
  "parse_header repaired_env '' '' = Inr ''''"
  "parse_header repaired_env '''' = Inr ''''"
  by (simp_all add: parse_header_def load_global_def repaired_env_def re_sub_whitespace_def isspace_def)

lemma repaired_pd: "load_global repaired_env ''pd'' = Inr ()"
  by (simp add: load_global_def repaired_env_def notebook_globals_def)

lemma repaired_build_df: "build_df repaired_env demo_grid = Inr demo_df"
  by (simp add: build_df_def repaired_pd demo_grid_def repaired_cells repaired_headers py_index_def
      pd_DataFrame_def demo_df_def)

lemma repaired_isna: "isna repaired_env c = (c = PyNone)"
  by (cases c) (simp_all add: isna_def repaired_env_def)

lemma repaired_parse_lifetable: "parse_lifetable repaired_env demo_grid year = Inr (demo_lifetable year)"
  by (simp add: parse_lifetable_def repaired_build_df demo_df_def df_male_def df_female_def
      iloc_until_def iloc_from_def assign_def pd_concat_def rename_def dropna_def repaired_isna
      demo_lifetable_def)

text \<open>The frame of the first statement, cell by cell.\<close>

lemma build_df_cells:
  assumes "build_df (env :: ('c, 't, 'x) pyenv) lifetable = Inr df"
  shows "list_all2 (\<lambda>src r. list_all2 (\<lambda>x c. parse_cell env x = Inr c) src (take (length src) r))
           (drop 4 lifetable) (rows df)"
proof -
  from build_df_parts[OF assms] obtain data where
    t: "traverse (traverse (parse_cell env)) (drop 4 lifetable) = Inr data"
    and f: "pd_DataFrame data (columns df) = Inr df"
    by blast
  from traverse_Inr[OF t]
  have 1: "list_all2 (\<lambda>src d. list_all2 (\<lambda>x c. parse_cell env x = Inr c) src d) (drop 4 lifetable) data"
    by (rule list_all2_mono) (rule traverse_Inr)
  from pd_DataFrame_rows[OF f]
  have 2: "list_all2 (\<lambda>d r. take (length d) r = d) data (rows df)" .
  have step: "list_all2 (\<lambda>x c. parse_cell env x = Inr c) src (take (length src) r)"
    if "list_all2 (\<lambda>x c. parse_cell env x = Inr c) src d" and "take (length d) r = d"
    for src :: "string list" and d r :: "'x cell list"
    using that list_all2_lengthD[OF that(1)] by simp
  show ?thesis
    by (rule list_all2_trans[OF _ 1 2]) (rule step)
qed

lemma build_df_placeholder:
  assumes "build_df env lifetable = Inr df"
    and "i < length (drop 4 lifetable)" and "j < length (drop 4 lifetable ! i)"
    and "drop 4 lifetable ! i ! j = nbsp"
  shows "rows df ! i ! j = PyNone"
proof -
  from build_df_cells[OF assms(1)] assms(2)
  have "list_all2 (\<lambda>x c. parse_cell env x = Inr c) (drop 4 lifetable ! i)
          (take (length (drop 4 lifetable ! i)) (rows df ! i))"
    by (auto simp: list_all2_conv_all_nth)
  with assms(3) have "parse_cell env (drop 4 lifetable ! i ! j) = Inr (rows df ! i ! j)"
    by (auto simp: list_all2_conv_all_nth)
  with assms(4) show ?thesis
    by (simp add: parse_cell_def)
qed

lemma parse_lifetable_no_null:
  "parse_lifetable env lifetable year = Inr out \<Longrightarrow>
   list_all (\<lambda>r. list_all (\<lambda>c. \<not> isna env c) r) (rows out)"
  by (auto simp: parse_lifetable_def dropna_def list_all_iff list_ex_iff split: sum.splits)

lemma parse_cell_bad:
  "x \<noteq> nbsp \<Longrightarrow> py_float env (re_sub_newline_comma x) = Inl e \<Longrightarrow> \<exists>e'. parse_cell env x = Inl e'"
  by (auto simp: parse_cell_def split: sum.splits)

lemma parse_lifetable_bad_cell:
  assumes "row \<in> set (drop 4 lifetable)" and "x \<in> set row" and "x \<noteq> nbsp"
    and "py_float env (re_sub_newline_comma x) = Inl e"
  shows "\<exists>e'. parse_lifetable env lifetable year = Inl e'"
proof -
  from parse_cell_bad[OF assms(3,4)] obtain e1 where "parse_cell env x = Inl e1" ..
  from traverse_Inl[where f = "parse_cell env", OF assms(2) this] obtain e2 where "traverse (parse_cell env) row = Inl e2" ..
  from traverse_Inl[where f = "traverse (parse_cell env)", OF assms(1) this] obtain e3 where
    "traverse (traverse (parse_cell env)) (drop 4 lifetable) = Inl e3" ..
  then have "\<exists>e'. build_df env lifetable = Inl e'"
    by (simp add: build_df_def split: sum.splits)
  then show ?thesis
    by (auto simp: parse_lifetable_def)
qed

lemma build_df_row_count:
  "build_df env lifetable = Inr df \<Longrightarrow> length (rows df) = length (drop 4 lifetable)"
  using build_df_cells[of env lifetable df] by (auto dest: list_all2_lengthD)

lemma build_df_header:
  assumes "build_df env lifetable = Inr df"
  shows "1 < length lifetable \<and> columns df = map re_sub_whitespace (lifetable ! 1)"
proof -
  from build_df_parts[OF assms] obtain header where
    h: "py_index lifetable 1 = Inr header"
    and t: "traverse (parse_header env) header = Inr (columns df)"
    by blast
  from h have 1: "1 < length lifetable" "header = lifetable ! 1"
    by (auto simp: py_index_def split: if_splits)
  from traverse_Inr[OF t] have "list_all2 (\<lambda>x y. y = re_sub_whitespace x) header (columns df)"
    by (rule list_all2_mono) (auto simp: parse_header_def split: sum.splits)
  then have "columns df = map re_sub_whitespace header"
    by (induction rule: list_all2_induct) auto
  with 1 show ?thesis by simp
qed

lemma re_sub_whitespace_clean: "list_all (\<lambda>c. \<not> isspace c) (re_sub_whitespace x)"
  by (simp add: re_sub_whitespace_def list_all_iff)

lemma columns_assign:
  "set (columns (assign c v df)) = insert c (set (columns df))"
  by (auto simp: assign_def)

lemma parse_lifetable_columns:
  assumes "parse_lifetable env lifetable year = Inr out"
  shows "\<exists>df both. build_df env lifetable = Inr df \<and>
     pd_concat [df_male df, df_female df] = Inr both \<and>
     set (columns out) =
       insert ''year'' ((\<lambda>l. if l = ''x'' then ''age'' else l) ` set (columns both))"
proof -
  from assms obtain df both where
    df: "build_df env lifetable = Inr df"
    and both: "pd_concat [df_male df, df_female df] = Inr both"
    and out: "out = dropna env (assign ''year'' (PyInt year) (rename ''x'' ''age'' both))"
    by (auto simp: parse_lifetable_def split: sum.splits)
  from out have "set (columns out) =
       insert ''year'' ((\<lambda>l. if l = ''x'' then ''age'' else l) ` set (columns both))"
    by (simp add: columns_dropna columns_assign rename_def)
  with df both show ?thesis by blast
qed

lemma repaired_scrape: "scrape_lifetable repaired_env year = Inr demo_grid"
  by (simp add: scrape_lifetable_def load_global_def repaired_env_def py_index_def demo_grid_def)

lemma repaired_get_lifetable: "get_lifetable repaired_env year = Inr (demo_lifetable year)"
  by (simp add: get_lifetable_def repaired_scrape repaired_parse_lifetable)

lemma repaired_traverse: "traverse (get_lifetable repaired_env) ys = Inr (map demo_lifetable ys)"
  by (induction ys) (simp_all add: repaired_get_lifetable)

lemma repaired_get_lifetables: "get_lifetables repaired_env = Inr demo_lifetables"
proof -
  have ne: "map demo_lifetable (py_range 1900 2100 10) \<noteq> []"
    by (simp add: years_list)
  have "list_all (\<lambda>f. columns f = [''age'', ''qx'', ''lx'', ''dx'', ''Lx'', ''Tx'', '''', ''sex'', ''year''])
          (map demo_lifetable (py_range 1900 2100 10))"
    by (simp add: list_all_iff demo_lifetable_def)
  from pd_concat_same_columns[OF ne this] show ?thesis
    by (simp add: get_lifetables_def repaired_pd repaired_traverse rename_def demo_lifetables_def comp_def)
qed

section \<open>The life-table functions where the library names are bound\<close>

text \<open>
  The lemmas of this section hold for every environment. They say what the functions of
  the life-table cell compute when they return, which takes an environment that binds
  \<^verbatim>\<open>re\<close> and, for \<^verbatim>\<open>get_lifetables\<close>, \<^verbatim>\<open>requests\<close>, \<^verbatim>\<open>BeautifulSoup\<close> and
  \<^verbatim>\<open>Extractor\<close>. Each is followed by its instance in the repaired environment. The
  notebook itself binds none of these names: what it does is the subject of the next
  section.
\<close>

text \<open>
  Missing cells. For every grid and environment: a cell that is the placeholder is parsed
  to \<^verbatim>\<open>None\<close> without any exception, and the frame holds \<^verbatim>\<open>None\<close> where a data row
  (grid row 4 onwards) holds the placeholder; a returned frame is rectangular and every
  row of it is free of nulls in every column; and a data cell that is not the placeholder
  and that \<^verbatim>\<open>float\<close> rejects makes the function raise.
\<close>

lemma bound_missing_cells:
  "parse_cell env nbsp = Inr PyNone \<and>
   (\<forall>df i j. build_df env lifetable = Inr df \<and> i < length (drop 4 lifetable) \<and>
      j < length (drop 4 lifetable ! i) \<and> drop 4 lifetable ! i ! j = nbsp \<longrightarrow>
      rows df ! i ! j = PyNone) \<and>
   (\<forall>out. parse_lifetable env lifetable year = Inr out \<longrightarrow>
      frame_ok out \<and> list_all (\<lambda>r. list_all (\<lambda>c. \<not> isna env c) r) (rows out)) \<and>
   (\<forall>row x e. row \<in> set (drop 4 lifetable) \<and> x \<in> set row \<and> x \<noteq> nbsp \<and>
      py_float env (re_sub_newline_comma x) = Inl e \<longrightarrow>
      (\<exists>e'. parse_lifetable env lifetable year = Inl e'))"
proof (intro conjI allI impI)
  show "parse_cell env nbsp = Inr PyNone"
    by (simp add: parse_cell_def)
next
  fix df i j
  assume "build_df env lifetable = Inr df \<and> i < length (drop 4 lifetable) \<and>
      j < length (drop 4 lifetable ! i) \<and> drop 4 lifetable ! i ! j = nbsp"
  then show "rows df ! i ! j = PyNone"
    using build_df_placeholder by blast
next
  fix out
  assume p: "parse_lifetable env lifetable year = Inr out"
  then show "frame_ok out"
    by (rule frame_ok_parse_lifetable)
  from p show "list_all (\<lambda>r. list_all (\<lambda>c. \<not> isna env c) r) (rows out)"
    by (rule parse_lifetable_no_null)
next
  fix row x e
  assume "row \<in> set (drop 4 lifetable) \<and> x \<in> set row \<and> x \<noteq> nbsp \<and>
      py_float env (re_sub_newline_comma x) = Inl e"
  then show "\<exists>e'. parse_lifetable env lifetable year = Inl e'"
    using parse_lifetable_bad_cell by blast
qed

lemma bound_missing_cells_repaired:
  "build_df repaired_env demo_grid = Inr demo_df \<and>
   drop 4 demo_grid ! 1 ! 1 = nbsp \<and> rows demo_df ! 1 ! 1 = PyNone \<and>
   parse_lifetable repaired_env demo_grid 1900 = Inr (demo_lifetable 1900) \<and>
   length (rows (demo_lifetable 1900)) = 3 \<and>
   frame_ok (demo_lifetable 1900) \<and>
   list_all (\<lambda>r. list_all (\<lambda>c. \<not> isna repaired_env c) r) (rows (demo_lifetable 1900)) \<and>
   [''n/a''] \<in> set (drop 4 bad_grid) \<and> ''n/a'' \<noteq> nbsp \<and>
   py_float repaired_env (re_sub_newline_comma ''n/a'') = Inl ValueError \<and>
   (\<exists>e'. parse_lifetable repaired_env bad_grid 1900 = Inl e')"
proof -
  note good = bound_missing_cells[of repaired_env demo_grid 1900]
  note bad = bound_missing_cells[of repaired_env bad_grid 1900]
  have c: "drop 4 demo_grid ! 1 ! 1 = nbsp"
    by (simp add: demo_grid_def)
  have i: "(1::nat) < length (drop 4 demo_grid)" "(1::nat) < length (drop 4 demo_grid ! 1)"
    by (simp_all add: demo_grid_def)
  from good repaired_build_df c i have n: "rows demo_df ! 1 ! 1 = PyNone"
    by blast
  from good repaired_parse_lifetable
  have a: "list_all (\<lambda>r. list_all (\<lambda>c. \<not> isna repaired_env c) r) (rows (demo_lifetable 1900))"
    by blast
  have m: "[''n/a''] \<in> set (drop 4 bad_grid)"
    by (simp add: bad_grid_def)
  have x: "''n/a'' \<noteq> nbsp"
    by (simp add: nbsp_def)
  have f: "py_float repaired_env (re_sub_newline_comma ''n/a'') = Inl ValueError"
    by (simp add: repaired_env_def demo_float_def re_sub_newline_comma_def num_defs)
  have "''n/a'' \<in> set [''n/a'']"
    by simp
  with bad m x f have e: "\<exists>e'. parse_lifetable repaired_env bad_grid 1900 = Inl e'"
    by blast
  have l: "length (rows (demo_lifetable 1900)) = 3"
    by (simp add: demo_lifetable_def)
  from good repaired_parse_lifetable have k: "frame_ok (demo_lifetable 1900)"
    by blast
  from repaired_build_df c n repaired_parse_lifetable l k a m x f e show ?thesis
    by blast
qed

text \<open>
  The split by sex. For a grid from which the frame is built, with no header cell labelled
  \<^verbatim>\<open>sex\<close>: the male sub-table has columns 0 to 6 of the frame and a last column
  \<^verbatim>\<open>sex\<close> that holds M, the female sub-table has the columns from 8 on and a last
  column \<^verbatim>\<open>sex\<close> that holds F, column 7 is in neither, both have as many rows as the
  grid has data rows, and what \<^verbatim>\<open>parse_lifetable\<close> returns is made of their concatenation.
\<close>

lemma bound_sex_split:
  assumes "build_df env lifetable = Inr df"
    and "''sex'' \<notin> set (columns df)"
  shows "columns (df_male df) = take 7 (columns df) @ [''sex''] \<and>
     rows (df_male df) = map (\<lambda>r. take 7 r @ [PyStr ''M'']) (rows df) \<and>
     columns (df_female df) = drop 8 (columns df) @ [''sex''] \<and>
     rows (df_female df) = map (\<lambda>r. drop 8 r @ [PyStr ''F'']) (rows df) \<and>
     length (rows (df_male df)) = length (rows (df_female df)) \<and>
     length (rows (df_male df)) = length (drop 4 lifetable) \<and>
     (\<forall>out. parse_lifetable env lifetable year = Inr out \<longrightarrow>
        (\<exists>both. pd_concat [df_male df, df_female df] = Inr both \<and>
           out = dropna env (assign ''year'' (PyInt year) (rename ''x'' ''age'' both))))"
proof -
  from assms(2) have m: "''sex'' \<notin> set (take 7 (columns df))"
    and f: "''sex'' \<notin> set (drop 8 (columns df))"
    by (auto dest: in_set_takeD in_set_dropD)
  from m have 1: "df_male df =
      \<lparr>columns = take 7 (columns df) @ [''sex''], rows = map (\<lambda>r. take 7 r @ [PyStr ''M'']) (rows df)\<rparr>"
    by (simp add: df_male_def iloc_until_def assign_def comp_def)
  from f have 2: "df_female df =
      \<lparr>columns = drop 8 (columns df) @ [''sex''], rows = map (\<lambda>r. drop 8 r @ [PyStr ''F'']) (rows df)\<rparr>"
    by (simp add: df_female_def iloc_from_def assign_def comp_def)
  have 3: "\<forall>out. parse_lifetable env lifetable year = Inr out \<longrightarrow>
        (\<exists>both. pd_concat [df_male df, df_female df] = Inr both \<and>
           out = dropna env (assign ''year'' (PyInt year) (rename ''x'' ''age'' both)))"
    using assms(1) by (auto simp: parse_lifetable_def split: sum.splits)
  from 1 2 build_df_row_count[OF assms(1)] have
    "columns (df_male df) = take 7 (columns df) @ [''sex''] \<and>
     rows (df_male df) = map (\<lambda>r. take 7 r @ [PyStr ''M'']) (rows df) \<and>
     columns (df_female df) = drop 8 (columns df) @ [''sex''] \<and>
     rows (df_female df) = map (\<lambda>r. drop 8 r @ [PyStr ''F'']) (rows df) \<and>
     length (rows (df_male df)) = length (rows (df_female df)) \<and>
     length (rows (df_male df)) = length (drop 4 lifetable)"
    by simp
  with 3 show ?thesis
    by blast
qed

lemma bound_sex_split_repaired:
  "build_df repaired_env demo_grid = Inr demo_df \<and>
   ''sex'' \<notin> set (columns demo_df) \<and>
   columns (df_male demo_df) = [''x'', ''qx'', ''lx'', ''dx'', ''Lx'', ''Tx'', '''', ''sex''] \<and>
   columns (df_female demo_df) = [''x'', ''qx'', ''lx'', ''dx'', ''Lx'', ''Tx'', '''', ''sex''] \<and>
   rows (df_male demo_df) = map (\<lambda>r. take 7 r @ [PyStr ''M'']) (rows demo_df) \<and>
   rows (df_female demo_df) = map (\<lambda>r. drop 8 r @ [PyStr ''F'']) (rows demo_df) \<and>
   length (rows (df_male demo_df)) = 2 \<and> length (rows (df_female demo_df)) = 2"
proof -
  have s: "''sex'' \<notin> set (columns demo_df)"
    by (simp add: demo_df_def)
  note th = bound_sex_split[OF repaired_build_df s]
  have c: "take 7 (columns demo_df) = [''x'', ''qx'', ''lx'', ''dx'', ''Lx'', ''Tx'', '''']"
    "drop 8 (columns demo_df) = [''x'', ''qx'', ''lx'', ''dx'', ''Lx'', ''Tx'', '''']"
    by (simp_all add: demo_df_def)
  have l: "length (drop 4 demo_grid) = 2"
    by (simp add: demo_grid_def)
  have r: "length (rows demo_df) = 2"
    by (simp add: demo_df_def)
  from th c l r repaired_build_df s show ?thesis
    by simp
qed

text \<open>
  The years. When \<^verbatim>\<open>get_lifetables\<close> returns, \<^verbatim>\<open>get_lifetable\<close> has returned a frame for
  each of the years 1900, 1910, ..., 2090, the result is these frames concatenated in this
  order (with the blank label renamed), and every cell under the label \<^verbatim>\<open>year\<close> of the
  result is one of these years.
\<close>

lemma bound_years:
  "py_range 1900 2100 10 =
     [1900, 1910, 1920, 1930, 1940, 1950, 1960, 1970, 1980, 1990,
      2000, 2010, 2020, 2030, 2040, 2050, 2060, 2070, 2080, 2090] \<and>
   (\<forall>out. get_lifetables env = Inr out \<longrightarrow>
      (\<exists>dfs both.
         list_all2 (\<lambda>year d. get_lifetable env year = Inr d) (py_range 1900 2100 10) dfs \<and>
         pd_concat dfs = Inr both \<and> out = rename '''' ''ex'' both) \<and>
      list_all (\<lambda>v. v \<in> PyInt ` set (py_range 1900 2100 10)) (column_values ''year'' out))"
proof (intro conjI allI impI)
  show "py_range 1900 2100 10 =
     [1900, 1910, 1920, 1930, 1940, 1950, 1960, 1970, 1980, 1990,
      2000, 2010, 2020, 2030, 2040, 2050, 2060, 2070, 2080, 2090]"
    by (rule years_list)
next
  fix out
  assume g: "get_lifetables env = Inr out"
  then show "\<exists>dfs both.
         list_all2 (\<lambda>year d. get_lifetable env year = Inr d) (py_range 1900 2100 10) dfs \<and>
         pd_concat dfs = Inr both \<and> out = rename '''' ''ex'' both"
    by (rule get_lifetables_parts)
  from g show "list_all (\<lambda>v. v \<in> PyInt ` set (py_range 1900 2100 10)) (column_values ''year'' out)"
    unfolding list_all_iff using get_lifetables_years by blast
qed

lemma bound_years_repaired:
  "get_lifetables repaired_env = Inr demo_lifetables \<and>
   length (rows demo_lifetables) = 60 \<and>
   length (column_values ''year'' demo_lifetables) = 60 \<and>
   list_all (\<lambda>v. v \<in> PyInt ` set (py_range 1900 2100 10)) (column_values ''year'' demo_lifetables)"
proof -
  from bound_years[of repaired_env] repaired_get_lifetables
  have a: "list_all (\<lambda>v. v \<in> PyInt ` set (py_range 1900 2100 10))
             (column_values ''year'' demo_lifetables)"
    by blast
  have l: "length (rows demo_lifetables) = 60"
    by (simp add: demo_lifetables_def years_list demo_lifetable_def)
  have c: "length (column_values ''year'' demo_lifetables) = 60"
    by (simp add: column_values_def demo_lifetables_def years_list demo_lifetable_def)
  from repaired_get_lifetables l c a show ?thesis
    by blast
qed

text \<open>
  Header and labels. The frame \<^verbatim>\<open>parse_lifetable\<close> builds takes its labels from grid
  row 1, each with all whitespace (newlines included) deleted, and its rows from the grid
  rows 4 onwards, cell by cell; the frame \<^verbatim>\<open>parse_lifetable\<close> returns has no column
  \<^verbatim>\<open>x\<close>, its labels being those of the concatenated sub-tables with \<^verbatim>\<open>x\<close> replaced
  by \<^verbatim>\<open>age\<close>, and \<^verbatim>\<open>year\<close>; the frame \<^verbatim>\<open>get_lifetables\<close> returns has no blank
  label, its labels being those of the concatenated yearly frames with the blank label
  replaced by \<^verbatim>\<open>ex\<close>.
\<close>

lemma bound_header_and_labels:
  "(\<forall>df. build_df env lifetable = Inr df \<longrightarrow>
      1 < length lifetable \<and> columns df = map re_sub_whitespace (lifetable ! 1) \<and>
      list_all (\<lambda>l. list_all (\<lambda>c. \<not> isspace c) l) (columns df) \<and>
      list_all2 (\<lambda>src r. list_all2 (\<lambda>x c. parse_cell env x = Inr c) src (take (length src) r))
        (drop 4 lifetable) (rows df)) \<and>
   (\<forall>out. parse_lifetable env lifetable year = Inr out \<longrightarrow>
      ''x'' \<notin> set (columns out) \<and>
      (\<exists>df both. build_df env lifetable = Inr df \<and>
         pd_concat [df_male df, df_female df] = Inr both \<and>
         set (columns out) =
           insert ''year'' ((\<lambda>l. if l = ''x'' then ''age'' else l) ` set (columns both)))) \<and>
   (\<forall>out. get_lifetables env = Inr out \<longrightarrow>
      '''' \<notin> set (columns out) \<and>
      (\<exists>dfs both. list_all2 (\<lambda>year d. get_lifetable env year = Inr d) (py_range 1900 2100 10) dfs \<and>
         pd_concat dfs = Inr both \<and>
         columns out = map (\<lambda>l. if l = '''' then ''ex'' else l) (columns both)))"
proof (intro conjI allI impI)
  fix df
  assume b: "build_df env lifetable = Inr df"
  from build_df_header[OF b] show "1 < length lifetable"
    and c: "columns df = map re_sub_whitespace (lifetable ! 1)"
    by simp_all
  from c show "list_all (\<lambda>l. list_all (\<lambda>c. \<not> isspace c) l) (columns df)"
    by (simp add: list_all_iff re_sub_whitespace_clean[unfolded list_all_iff])
  from b show "list_all2 (\<lambda>src r. list_all2 (\<lambda>x c. parse_cell env x = Inr c) src (take (length src) r))
        (drop 4 lifetable) (rows df)"
    by (rule build_df_cells)
next
  fix out
  assume p: "parse_lifetable env lifetable year = Inr out"
  from parse_lifetable_columns[OF p]
  show e: "\<exists>df both. build_df env lifetable = Inr df \<and>
         pd_concat [df_male df, df_female df] = Inr both \<and>
         set (columns out) =
           insert ''year'' ((\<lambda>l. if l = ''x'' then ''age'' else l) ` set (columns both))" .
  then show "''x'' \<notin> set (columns out)"
    by auto
next
  fix out
  assume g: "get_lifetables env = Inr out"
  from get_lifetables_parts[OF g] obtain dfs both where
    rel: "list_all2 (\<lambda>year d. get_lifetable env year = Inr d) (py_range 1900 2100 10) dfs"
    and c: "pd_concat dfs = Inr both" and o: "out = rename '''' ''ex'' both"
    by blast
  from o have cols: "columns out = map (\<lambda>l. if l = '''' then ''ex'' else l) (columns both)"
    by (simp add: rename_def)
  then show "'''' \<notin> set (columns out)"
    by auto
  from rel c cols
  show "\<exists>dfs both. list_all2 (\<lambda>year d. get_lifetable env year = Inr d) (py_range 1900 2100 10) dfs \<and>
         pd_concat dfs = Inr both \<and>
         columns out = map (\<lambda>l. if l = '''' then ''ex'' else l) (columns both)"
    by blast
qed

lemma bound_header_and_labels_repaired:
  "build_df repaired_env demo_grid = Inr demo_df \<and>
   columns demo_df = map re_sub_whitespace (demo_grid ! 1) \<and>
   columns demo_df = [''x'', ''qx'', ''lx'', ''dx'', ''Lx'', ''Tx'', '''', '''',
                      ''x'', ''qx'', ''lx'', ''dx'', ''Lx'', ''Tx'', ''''] \<and>
   parse_lifetable repaired_env demo_grid 1900 = Inr (demo_lifetable 1900) \<and>
   ''x'' \<notin> set (columns (demo_lifetable 1900)) \<and>
   ''age'' \<in> set (columns (demo_lifetable 1900)) \<and>
   get_lifetables repaired_env = Inr demo_lifetables \<and>
   '''' \<notin> set (columns demo_lifetables) \<and>
   ''ex'' \<in> set (columns demo_lifetables)"
proof -
  note th = bound_header_and_labels[of repaired_env demo_grid 1900]
  have 1: "columns demo_df = map re_sub_whitespace (demo_grid ! 1)"
    by (rule th[THEN conjunct1, rule_format, OF repaired_build_df, THEN conjunct2, THEN conjunct1])
  have 2: "''x'' \<notin> set (columns (demo_lifetable 1900))"
    by (rule th[THEN conjunct2, THEN conjunct1, rule_format, OF repaired_parse_lifetable, THEN conjunct1])
  have 3: "'''' \<notin> set (columns demo_lifetables)"
    by (rule th[THEN conjunct2, THEN conjunct2, rule_format, OF repaired_get_lifetables, THEN conjunct1])
  have 4: "columns demo_df = [''x'', ''qx'', ''lx'', ''dx'', ''Lx'', ''Tx'', '''', '''',
                      ''x'', ''qx'', ''lx'', ''dx'', ''Lx'', ''Tx'', '''']"
    by (simp add: demo_df_def)
  have 5: "''age'' \<in> set (columns (demo_lifetable 1900))"
    by (simp add: demo_lifetable_def)
  have 6: "''ex'' \<in> set (columns demo_lifetables)"
    by (simp add: demo_lifetables_def)
  from repaired_build_df 1 4 repaired_parse_lifetable 2 5 repaired_get_lifetables 3 6 show ?thesis
    by (intro conjI)
qed

section \<open>The life-table pipeline of the notebook as written\<close>

text \<open>
  The environment \<open>env\<lparr>globals := notebook_globals\<rparr>\<close> is the notebook as written: the
  names its cells bind, with libraries that may compute anything. There \<^verbatim>\<open>re\<close> and
  \<^verbatim>\<open>requests\<close> are unbound, so a cell that is not the placeholder and every header cell
  raise \<^verbatim>\<open>NameError\<close>, whatever \<^verbatim>\<open>float\<close> would make of the cell.
\<close>

lemma nb_load_re:
  "load_global (env\<lparr>globals := notebook_globals\<rparr>) ''re'' = Inl (NameError ''re'')"
  by (simp add: load_global_def notebook_globals_def)

lemma nb_load_pd: "load_global (env\<lparr>globals := notebook_globals\<rparr>) ''pd'' = Inr ()"
  by (simp add: load_global_def notebook_globals_def)

lemma nb_load_requests:
  "load_global (env\<lparr>globals := notebook_globals\<rparr>) ''requests'' = Inl (NameError ''requests'')"
  by (simp add: load_global_def notebook_globals_def)

lemma nb_parse_cell:
  "parse_cell (env\<lparr>globals := notebook_globals\<rparr>) x =
     (if x = nbsp then Inr PyNone else Inl (NameError ''re''))"
  by (simp add: parse_cell_def nb_load_re)

lemma nb_parse_header:
  "parse_header (env\<lparr>globals := notebook_globals\<rparr>) x = Inl (NameError ''re'')"
  by (simp add: parse_header_def nb_load_re)

text \<open>A comprehension whose elements can raise one exception only raises that one.\<close>

lemma traverse_one_error:
  "(\<And>x e. x \<in> set xs \<Longrightarrow> f x = Inl e \<Longrightarrow> e = e0) \<Longrightarrow> traverse f xs = Inl e \<Longrightarrow> e = e0"
  by (induction xs) (auto split: sum.splits)

lemma nb_row_error:
  "traverse (parse_cell (env\<lparr>globals := notebook_globals\<rparr>)) row = Inl e \<Longrightarrow> e = NameError ''re''"
  by (erule traverse_one_error[rotated]) (simp add: nb_parse_cell split: if_splits)

lemma nb_data_error:
  "traverse (traverse (parse_cell (env\<lparr>globals := notebook_globals\<rparr>))) rws = Inl e \<Longrightarrow>
   e = NameError ''re''"
  by (erule traverse_one_error[rotated]) (rule nb_row_error)

lemma nb_data_raises:
  assumes "row \<in> set rws" and "x \<in> set row" and "x \<noteq> nbsp"
  shows "traverse (traverse (parse_cell (env\<lparr>globals := notebook_globals\<rparr>))) rws =
           Inl (NameError ''re'')"
proof -
  let ?nb = "env\<lparr>globals := notebook_globals\<rparr>"
  from assms(3) have "parse_cell ?nb x = Inl (NameError ''re'')"
    by (simp add: nb_parse_cell)
  from traverse_Inl[where f = "parse_cell ?nb", OF assms(2) this]
  obtain e1 where "traverse (parse_cell ?nb) row = Inl e1" ..
  from traverse_Inl[where f = "traverse (parse_cell ?nb)", OF assms(1) this]
  obtain e2 where e2: "traverse (traverse (parse_cell ?nb)) rws = Inl e2" ..
  with nb_data_error[OF e2] show ?thesis by simp
qed

text \<open>The frame is never built from a grid that holds a cell to parse or a header cell:
  \<^verbatim>\<open>parse_lifetable\<close> returns for no grid but one with an empty header row and empty
  data rows.\<close>

lemma nb_build_df_data:
  assumes "row \<in> set (drop 4 lifetable)" and "x \<in> set row" and "x \<noteq> nbsp"
  shows "build_df (env\<lparr>globals := notebook_globals\<rparr>) lifetable = Inl (NameError ''re'')"
  using nb_data_raises[OF assms, of env] by (simp add: build_df_def nb_load_pd)

lemma nb_build_df_header:
  assumes "1 < length lifetable" and "lifetable ! 1 \<noteq> []"
  shows "build_df (env\<lparr>globals := notebook_globals\<rparr>) lifetable = Inl (NameError ''re'')"
proof -
  let ?nb = "env\<lparr>globals := notebook_globals\<rparr>"
  from assms(2) obtain h hs where h: "lifetable ! 1 = h # hs"
    by (cases "lifetable ! 1") auto
  then have t: "traverse (parse_header ?nb) (lifetable ! 1) = Inl (NameError ''re'')"
    by (simp add: nb_parse_header)
  show ?thesis
  proof (cases "traverse (traverse (parse_cell ?nb)) (drop 4 lifetable)")
    case (Inl e)
    with nb_data_error[OF Inl] show ?thesis
      by (simp add: build_df_def nb_load_pd)
  next
    case (Inr data)
    with assms(1) t show ?thesis
      by (simp add: build_df_def nb_load_pd py_index_def)
  qed
qed

lemma nb_build_df_returns:
  assumes "build_df (env\<lparr>globals := notebook_globals\<rparr>) lifetable = Inr df"
  shows "1 < length lifetable \<and> lifetable ! 1 = [] \<and> columns df = [] \<and>
     list_all (\<lambda>row. row = []) (drop 4 lifetable)"
proof -
  let ?nb = "env\<lparr>globals := notebook_globals\<rparr>"
  from build_df_header[OF assms] have l: "1 < length lifetable"
    and c: "columns df = map re_sub_whitespace (lifetable ! 1)"
    by simp_all
  from nb_build_df_header[OF l, of env] assms have h: "lifetable ! 1 = []"
    by (cases "lifetable ! 1 = []") auto
  from build_df_parts[OF assms] obtain data where
    t: "traverse (traverse (parse_cell ?nb)) (drop 4 lifetable) = Inr data"
    and f: "pd_DataFrame data (columns df) = Inr df"
    by blast
  from c h have c0: "columns df = []" by simp
  from traverse_Inr[OF t] have len: "list_all2 (\<lambda>src d. length d = length src) (drop 4 lifetable) data"
    by (rule list_all2_mono) (auto dest!: traverse_Inr list_all2_lengthD)
  from f c0 have "list_all (\<lambda>d. d = []) data"
    by (auto simp: pd_DataFrame_def Let_def list_all_iff split: if_splits
        dest!: foldr_max_ge)
  with len have "list_all (\<lambda>row. row = []) (drop 4 lifetable)"
    by (induction rule: list_all2_induct) auto
  with l h c0 show ?thesis by simp
qed

lemma nb_parse_lifetable_data:
  assumes "row \<in> set (drop 4 lifetable)" and "x \<in> set row" and "x \<noteq> nbsp"
  shows "parse_lifetable (env\<lparr>globals := notebook_globals\<rparr>) lifetable year = Inl (NameError ''re'')"
  using nb_build_df_data[OF assms, of env] by (simp add: parse_lifetable_def)

lemma nb_parse_lifetable_header:
  assumes "1 < length lifetable" and "lifetable ! 1 \<noteq> []"
  shows "parse_lifetable (env\<lparr>globals := notebook_globals\<rparr>) lifetable year = Inl (NameError ''re'')"
  using nb_build_df_header[OF assms, of env] by (simp add: parse_lifetable_def)

text \<open>No page is requested.\<close>

lemma nb_scrape_lifetable:
  "scrape_lifetable (env\<lparr>globals := notebook_globals\<rparr>) year = Inl (NameError ''requests'')"
  by (simp add: scrape_lifetable_def nb_load_requests)

lemma nb_get_lifetable:
  "get_lifetable (env\<lparr>globals := notebook_globals\<rparr>) year = Inl (NameError ''requests'')"
  by (simp add: get_lifetable_def nb_scrape_lifetable)

lemma nb_get_lifetables:
  "get_lifetables (env\<lparr>globals := notebook_globals\<rparr>) = Inl (NameError ''requests'')"
  by (simp add: get_lifetables_def nb_load_pd years_list nb_get_lifetable)

text \<open>
  Claim C3 says that the placeholder becomes a null, that the rows of the returned frame
  are free of nulls, and that a cell \<^verbatim>\<open>float\<close> rejects is fatal. The notebook as written
  does test for the placeholder first, but it raises \<^verbatim>\<open>NameError\<close> for \<^verbatim>\<open>re\<close> on every
  other cell, numerals included. For the example table, which has one missing cell in
  its second data row, the data comprehension stops at the first numeral and
  \<^verbatim>\<open>parse_lifetable\<close> raises: no frame is returned from which the row could be dropped.
\<close>

theorem lifetable_numeric_cells_raise:
  "parse_cell (env\<lparr>globals := notebook_globals\<rparr>) nbsp = Inr PyNone \<and>
   parse_cell (env\<lparr>globals := notebook_globals\<rparr>) ''100,000'' = Inl (NameError ''re'') \<and>
   drop 4 demo_grid ! 1 ! 1 = nbsp \<and>
   traverse (traverse (parse_cell (env\<lparr>globals := notebook_globals\<rparr>))) (drop 4 demo_grid) =
     Inl (NameError ''re'') \<and>
   parse_lifetable (env\<lparr>globals := notebook_globals\<rparr>) demo_grid year = Inl (NameError ''re'')"
proof -
  have r: "drop 4 demo_grid ! 0 \<in> set (drop 4 demo_grid)" "''100,000'' \<in> set (drop 4 demo_grid ! 0)"
    by (simp_all add: demo_grid_def)
  have x: "''100,000'' \<noteq> nbsp"
    by (simp add: nbsp_def)
  have c: "drop 4 demo_grid ! 1 ! 1 = nbsp"
    by (simp add: demo_grid_def)
  from nb_data_raises[OF r x, of env] nb_parse_lifetable_data[OF r x, of env year] x c
  show ?thesis
    by (simp add: nb_parse_cell)
qed

text \<open>
  Claim C4 says that \<^verbatim>\<open>parse_lifetable\<close> builds the male and the female sub-table from a
  well-formed grid. The example table is well-formed: fifteen header cells and fifteen
  cells in every data row. In the notebook as written the frame of the first statement
  is not built from it, \<^verbatim>\<open>parse_lifetable\<close> raises \<^verbatim>\<open>NameError\<close> for \<^verbatim>\<open>re\<close>, and
  neither sub-table comes to exist.
\<close>

theorem lifetable_sex_split_not_built:
  "length (demo_grid ! 1) = 15 \<and>
   list_all (\<lambda>row. length row = 15) (drop 4 demo_grid) \<and>
   build_df (env\<lparr>globals := notebook_globals\<rparr>) demo_grid = Inl (NameError ''re'') \<and>
   parse_lifetable (env\<lparr>globals := notebook_globals\<rparr>) demo_grid year = Inl (NameError ''re'')"
proof -
  have r: "drop 4 demo_grid ! 0 \<in> set (drop 4 demo_grid)" "''0'' \<in> set (drop 4 demo_grid ! 0)"
    by (simp_all add: demo_grid_def)
  have x: "''0'' \<noteq> nbsp"
    by (simp add: nbsp_def)
  have w: "length (demo_grid ! 1) = 15" "list_all (\<lambda>row. length row = 15) (drop 4 demo_grid)"
    by (simp_all add: demo_grid_def)
  from nb_build_df_data[OF r x, of env] nb_parse_lifetable_data[OF r x, of env year] w
  show ?thesis by simp
qed

text \<open>
  Claim C7 says that \<^verbatim>\<open>get_lifetables\<close> fetches and combines the tables of the years
  1900, 1910, ..., 2090. The range is these twenty years, but in the notebook as written
  \<^verbatim>\<open>get_lifetable\<close> raises \<^verbatim>\<open>NameError\<close> for \<^verbatim>\<open>requests\<close> on every one of them, so the
  comprehension stops at 1900 and \<^verbatim>\<open>get_lifetables\<close> raises: nothing is fetched and no
  combined frame exists.
\<close>

theorem lifetables_not_fetched:
  "py_range 1900 2100 10 =
     [1900, 1910, 1920, 1930, 1940, 1950, 1960, 1970, 1980, 1990,
      2000, 2010, 2020, 2030, 2040, 2050, 2060, 2070, 2080, 2090] \<and>
   list_all (\<lambda>year. get_lifetable (env\<lparr>globals := notebook_globals\<rparr>) year =
                      Inl (NameError ''requests'')) (py_range 1900 2100 10) \<and>
   traverse (get_lifetable (env\<lparr>globals := notebook_globals\<rparr>)) (py_range 1900 2100 10) =
     Inl (NameError ''requests'') \<and>
   get_lifetables (env\<lparr>globals := notebook_globals\<rparr>) = Inl (NameError ''requests'')"
proof (intro conjI)
  show "py_range 1900 2100 10 =
     [1900, 1910, 1920, 1930, 1940, 1950, 1960, 1970, 1980, 1990,
      2000, 2010, 2020, 2030, 2040, 2050, 2060, 2070, 2080, 2090]"
    by (rule years_list)
  show "list_all (\<lambda>year. get_lifetable (env\<lparr>globals := notebook_globals\<rparr>) year =
                      Inl (NameError ''requests'')) (py_range 1900 2100 10)"
    by (simp add: list_all_iff nb_get_lifetable)
  show "traverse (get_lifetable (env\<lparr>globals := notebook_globals\<rparr>)) (py_range 1900 2100 10) =
     Inl (NameError ''requests'')"
    by (simp add: years_list nb_get_lifetable)
  show "get_lifetables (env\<lparr>globals := notebook_globals\<rparr>) = Inl (NameError ''requests'')"
    by (rule nb_get_lifetables)
qed

text \<open>
  Claim C8 says that \<^verbatim>\<open>parse_lifetable\<close> takes the labels from grid row 1 with whitespace
  deleted and renames \<^verbatim>\<open>x\<close>, and that the combined result renames the blank label. In
  the notebook as written the header row of the example table is not read: for the grid
  of its first four rows, which has no data row, the data comprehension returns and the
  first header cell raises \<^verbatim>\<open>NameError\<close> for \<^verbatim>\<open>re\<close>; so \<^verbatim>\<open>parse_lifetable\<close> raises on
  both grids before any renaming, and \<^verbatim>\<open>get_lifetables\<close> raises before its own.
\<close>

theorem lifetable_header_not_read:
  "traverse (traverse (parse_cell (env\<lparr>globals := notebook_globals\<rparr>))) (drop 4 (take 4 demo_grid)) =
     Inr [] \<and>
   traverse (parse_header (env\<lparr>globals := notebook_globals\<rparr>)) (demo_grid ! 1) =
     Inl (NameError ''re'') \<and>
   build_df (env\<lparr>globals := notebook_globals\<rparr>) (take 4 demo_grid) = Inl (NameError ''re'') \<and>
   parse_lifetable (env\<lparr>globals := notebook_globals\<rparr>) (take 4 demo_grid) year =
     Inl (NameError ''re'') \<and>
   parse_lifetable (env\<lparr>globals := notebook_globals\<rparr>) demo_grid year = Inl (NameError ''re'') \<and>
   get_lifetables (env\<lparr>globals := notebook_globals\<rparr>) = Inl (NameError ''requests'')"
proof -
  have l: "1 < length (take 4 demo_grid)" "take 4 demo_grid ! 1 \<noteq> []"
    "1 < length demo_grid" "demo_grid ! 1 \<noteq> []"
    by (simp_all add: demo_grid_def)
  have d: "drop 4 (take 4 demo_grid) = []"
    by (simp add: demo_grid_def)
  have h: "traverse (parse_header (env\<lparr>globals := notebook_globals\<rparr>)) (demo_grid ! 1) =
     Inl (NameError ''re'')"
    by (simp add: demo_grid_def nb_parse_header)
  from nb_build_df_header[OF l(1,2), of env] nb_parse_lifetable_header[OF l(1,2), of env year]
    nb_parse_lifetable_header[OF l(3,4), of env year] nb_get_lifetables[of env] d h
  show ?thesis by simp
qed

text \<open>
  Claim C10. In the notebook as written, whatever the libraries would compute: the names
  \<^verbatim>\<open>requests\<close>, \<^verbatim>\<open>BeautifulSoup\<close>, \<^verbatim>\<open>Extractor\<close> and \<^verbatim>\<open>re\<close> are unbound;
  parsing a header cell raises \<^verbatim>\<open>NameError\<close> for \<^verbatim>\<open>re\<close>; \<^verbatim>\<open>scrape_lifetable\<close>,
  \<^verbatim>\<open>get_lifetable\<close> and \<^verbatim>\<open>get_lifetables\<close> raise \<^verbatim>\<open>NameError\<close> for \<^verbatim>\<open>requests\<close>;
  and the last cell raises it too and leaves the file system as it was, so
  \<^verbatim>\<open>lifetables.csv\<close> is not written.
\<close>

theorem lifetable_pipeline_undefined_names:
  "load_global (env\<lparr>globals := notebook_globals\<rparr>) ''requests'' = Inl (NameError ''requests'') \<and>
   load_global (env\<lparr>globals := notebook_globals\<rparr>) ''BeautifulSoup'' = Inl (NameError ''BeautifulSoup'') \<and>
   load_global (env\<lparr>globals := notebook_globals\<rparr>) ''Extractor'' = Inl (NameError ''Extractor'') \<and>
   load_global (env\<lparr>globals := notebook_globals\<rparr>) ''re'' = Inl (NameError ''re'') \<and>
   parse_header (env\<lparr>globals := notebook_globals\<rparr>) x = Inl (NameError ''re'') \<and>
   scrape_lifetable (env\<lparr>globals := notebook_globals\<rparr>) year = Inl (NameError ''requests'') \<and>
   get_lifetable (env\<lparr>globals := notebook_globals\<rparr>) year = Inl (NameError ''requests'') \<and>
   get_lifetables (env\<lparr>globals := notebook_globals\<rparr>) = Inl (NameError ''requests'') \<and>
   cell_lifetables (env\<lparr>globals := notebook_globals\<rparr>) fs = (Inl (NameError ''requests''), fs)"
proof -
  let ?env = "env\<lparr>globals := notebook_globals\<rparr>"
  have rq: "load_global ?env ''requests'' = Inl (NameError ''requests'')"
    by (simp add: load_global_def notebook_globals_def)
  have bs: "load_global ?env ''BeautifulSoup'' = Inl (NameError ''BeautifulSoup'')"
    by (simp add: load_global_def notebook_globals_def)
  have ex: "load_global ?env ''Extractor'' = Inl (NameError ''Extractor'')"
    by (simp add: load_global_def notebook_globals_def)
  have re: "load_global ?env ''re'' = Inl (NameError ''re'')"
    by (simp add: load_global_def notebook_globals_def)
  have pd: "load_global ?env ''pd'' = Inr ()"
    by (simp add: load_global_def notebook_globals_def)
  have ph: "parse_header ?env x = Inl (NameError ''re'')"
    by (simp add: parse_header_def re)
  have sc: "\<And>y. scrape_lifetable ?env y = Inl (NameError ''requests'')"
    by (simp add: scrape_lifetable_def rq)
  have g1: "\<And>y. get_lifetable ?env y = Inl (NameError ''requests'')"
    by (simp add: get_lifetable_def sc)
  have gs: "get_lifetables ?env = Inl (NameError ''requests'')"
    by (simp add: get_lifetables_def pd years_list g1)
  have cl: "cell_lifetables ?env fs = (Inl (NameError ''requests''), fs)"
    by (simp add: cell_lifetables_def gs)
  from rq bs ex re ph sc g1 gs cl show ?thesis
    by blast
qed

end
